theory Spec2Isabelle
  imports Complex_Main "HOL-Library.AList" "HOL-Library.Multiset"
begin

section \<open>JavaScript values\<close>

text \<open>
  The partner aggregation engine (\<open>zabava_server/lib/partner-data.js\<close> and its older
  near-duplicate copy) works on dynamically typed JavaScript values read from a key-value
  store. The values are the JSON ones plus \<open>undefined\<close>.

  Numbers are IEEE 754 doubles: \<open>NaN\<close>, the two infinities, and the finite doubles, each
  denoted by the rational it stands for. An addition or a division computes the exact
  result and rounds it to the nearest double, ties to the even significand; the sign of
  zero is not modelled. Strings are lists of 8-bit characters read as ASCII; an object is
  an association list in insertion order whose first binding of a key is the one a lookup
  sees.
\<close>

datatype jsnum = NaN | PInf | NInf | Num rat

datatype jsval =
    Undefined
  | Null
  | JBool bool
  | JNum jsnum
  | JStr string
  | JObj "(string \<times> jsval) list"
  | JArr "jsval list"

type_synonym obj = "(string \<times> jsval) list"

text \<open>The outcome of one call to the store: the call throws, or it returns a value.\<close>

datatype 'a fetch = Failed | Fetched 'a

text \<open>
  The platform functions whose definition is not part of the repository are parameters of
  the model: \<open>JSON.parse\<close> (\<open>None\<close> when it throws), the string case of \<open>Number(...)\<close>,
  \<open>Date.parse\<close>, the number case of \<open>String(...)\<close>, and the two reads of the store,
  \<open>kv.smembers\<close> and \<open>kv.hgetall\<close> (\<open>Fetched None\<close> is the \<open>null\<close> of a missing hash).
  The numbers they return are doubles.
\<close>

record env =
  JSON_parse :: "string \<Rightarrow> jsval option"
  StringToNumber :: "string \<Rightarrow> jsnum"
  Date_parse :: "string \<Rightarrow> jsnum"
  NumberToString :: "jsnum \<Rightarrow> string"
  smembers :: "string \<Rightarrow> jsval list fetch"
  hgetall :: "string \<Rightarrow> obj option fetch"

subsection \<open>Numbers\<close>

text \<open>
  The nearest double. \<open>bitlen n\<close> is the number of binary digits of a positive integer,
  \<open>pow2 e\<close> is \<open>2^e\<close>, and \<open>exponent_of m\<close> is the exponent \<open>e\<close> with
  \<open>2^e \<le> m < 2^(e+1)\<close> of a positive rational. Around a number of exponent \<open>e\<close> the
  doubles are the multiples of \<open>2^(e-52)\<close>, the exponent being at least \<open>-1022\<close> (below
  it the numbers are subnormal). \<open>fl a\<close> is the multiple nearest to \<open>a\<close>, the even one of
  two that are equally near, and an infinity when its magnitude reaches \<open>2^1024\<close>.
\<close>

function bitlen :: "int \<Rightarrow> int" where
  "bitlen n = (if n \<le> 0 then 0 else 1 + bitlen (n div 2))"
  by auto
termination
  by (relation "measure nat") auto

declare bitlen.simps [simp del]

definition pow2 :: "int \<Rightarrow> rat" where
  "pow2 e = (if 0 \<le> e then 2 ^ nat e else 1 / 2 ^ nat (- e))"

definition exponent_of :: "rat \<Rightarrow> int" where
  "exponent_of m =
     (let d = bitlen (fst (quotient_of m)) - bitlen (snd (quotient_of m))
      in if pow2 d \<le> m then d else d - 1)"

definition round_half_even :: "rat \<Rightarrow> int" where
  "round_half_even q =
     (let f = \<lfloor>q\<rfloor>; d = q - of_int f
      in if d < 1 / 2 then f else if 1 / 2 < d then f + 1 else if even f then f else f + 1)"

definition fl :: "rat \<Rightarrow> jsnum" where
  "fl a =
     (if a = 0 then Num 0
      else
        (let m = \<bar>a\<bar>;
             e = max (exponent_of m) (- 1022);
             ulp = pow2 (e - 52);
             k = round_half_even (m / ulp)
         in if 1024 \<le> e \<or> (e = 1023 \<and> 9007199254740992 \<le> k)
            then (if a < 0 then NInf else PInf)
            else Num (if a < 0 then - (of_int k * ulp) else of_int k * ulp)))"

text \<open>\<open>a + b\<close>\<close>

fun js_add :: "jsnum \<Rightarrow> jsnum \<Rightarrow> jsnum" where
  "js_add NaN _ = NaN"
| "js_add _ NaN = NaN"
| "js_add PInf NInf = NaN"
| "js_add NInf PInf = NaN"
| "js_add PInf _ = PInf"
| "js_add _ PInf = PInf"
| "js_add NInf _ = NInf"
| "js_add _ NInf = NInf"
| "js_add (Num a) (Num b) = fl (a + b)"

fun js_neg :: "jsnum \<Rightarrow> jsnum" where
  "js_neg NaN = NaN"
| "js_neg PInf = NInf"
| "js_neg NInf = PInf"
| "js_neg (Num a) = Num (- a)"

definition js_sub :: "jsnum \<Rightarrow> jsnum \<Rightarrow> jsnum" where
  "js_sub a b = js_add a (js_neg b)"

text \<open>
  \<open>total / count\<close>, the only division of the program. The count is the length of an array,
  a non-negative integer below \<open>2^32\<close>.
\<close>

fun js_div_count :: "jsnum \<Rightarrow> nat \<Rightarrow> jsnum" where
  "js_div_count (Num a) n =
     (if n = 0 then (if a = 0 then NaN else if 0 < a then PInf else NInf)
      else fl (a / of_nat n))"
| "js_div_count x n = x"

text \<open>
  \<open>Math.round\<close>: the floor of \<open>x + 0.5\<close>, which is a double whenever \<open>x\<close> is one.
\<close>

fun Math_round :: "jsnum \<Rightarrow> jsnum" where
  "Math_round (Num a) = Num (of_int (round a))"
| "Math_round x = x"

fun num_truthy :: "jsnum \<Rightarrow> bool" where
  "num_truthy NaN = False"
| "num_truthy (Num a) = (a \<noteq> 0)"
| "num_truthy _ = True"

text \<open>\<open>x || 0\<close> on a number.\<close>

definition num_or0 :: "jsnum \<Rightarrow> jsnum" where
  "num_or0 x = (if num_truthy x then x else Num 0)"

text \<open>
  How \<open>Array.prototype.sort\<close> reads the comparator's result \<open>v\<close>: a negative value puts
  the first argument first, and \<open>NaN\<close> is read as \<open>+0\<close>.
\<close>

fun cmp_nonpositive :: "jsnum \<Rightarrow> bool" where
  "cmp_nonpositive NaN = True"
| "cmp_nonpositive PInf = False"
| "cmp_nonpositive NInf = True"
| "cmp_nonpositive (Num a) = (a \<le> 0)"

subsection \<open>Strings\<close>

definition is_space :: "char \<Rightarrow> bool" where
  "is_space c = (let n = (of_char c :: nat) in (9 \<le> n \<and> n \<le> 13) \<or> n = 32)"

definition trim :: "string \<Rightarrow> string" where
  "trim s = rev (dropWhile is_space (rev (dropWhile is_space s)))"

definition lower_char :: "char \<Rightarrow> char" where
  "lower_char c = (let n = (of_char c :: nat) in if 65 \<le> n \<and> n \<le> 90 then char_of (n + 32) else c)"

definition upper_char :: "char \<Rightarrow> char" where
  "upper_char c = (let n = (of_char c :: nat) in if 97 \<le> n \<and> n \<le> 122 then char_of (n - 32) else c)"

definition toLowerCase :: "string \<Rightarrow> string" where
  "toLowerCase s = map lower_char s"

definition toUpperCase :: "string \<Rightarrow> string" where
  "toUpperCase s = map upper_char s"

definition startsWith :: "string \<Rightarrow> string \<Rightarrow> bool" where
  "startsWith s p = (take (length p) s = p)"

fun join_comma :: "string list \<Rightarrow> string" where
  "join_comma [] = []"
| "join_comma [s] = s"
| "join_comma (s # t # ts) = s @ '','' @ join_comma (t # ts)"

text \<open>The decimal numeral of an array index, as a property key.\<close>

definition digit_char :: "nat \<Rightarrow> char" where
  "digit_char d = char_of (48 + d)"

fun index_key :: "nat \<Rightarrow> string" where
  "index_key n = (if n < 10 then [digit_char n] else index_key (n div 10) @ [digit_char (n mod 10)])"

subsection \<open>Conversions and operators\<close>

fun truthy :: "jsval \<Rightarrow> bool" where
  "truthy Undefined = False"
| "truthy Null = False"
| "truthy (JBool b) = b"
| "truthy (JNum n) = num_truthy n"
| "truthy (JStr s) = (s \<noteq> [])"
| "truthy (JObj _) = True"
| "truthy (JArr _) = True"

text \<open>\<open>a || b\<close> and \<open>a ?? b\<close>.\<close>

definition js_or :: "jsval \<Rightarrow> jsval \<Rightarrow> jsval" where
  "js_or a b = (if truthy a then a else b)"

definition js_nullish :: "jsval \<Rightarrow> jsval \<Rightarrow> jsval" where
  "js_nullish a b = (if a = Undefined \<or> a = Null then b else a)"

text \<open>
  \<open>String(v)\<close>. An array joins its elements with commas, \<open>null\<close> and \<open>undefined\<close>
  elements giving the empty string; a plain object gives \<open>[object Object]\<close>.
\<close>

fun toString :: "env \<Rightarrow> jsval \<Rightarrow> string" where
  "toString E Undefined = ''undefined''"
| "toString E Null = ''null''"
| "toString E (JBool b) = (if b then ''true'' else ''false'')"
| "toString E (JNum n) = NumberToString E n"
| "toString E (JStr s) = s"
| "toString E (JObj _) = ''[object Object]''"
| "toString E (JArr xs) =
     join_comma (map (\<lambda>x. if x = Undefined \<or> x = Null then [] else toString E x) xs)"

text \<open>\<open>Number(v)\<close>; objects and arrays go through their string form.\<close>

fun toNumber :: "env \<Rightarrow> jsval \<Rightarrow> jsnum" where
  "toNumber E Undefined = NaN"
| "toNumber E Null = Num 0"
| "toNumber E (JBool b) = (if b then Num 1 else Num 0)"
| "toNumber E (JNum n) = n"
| "toNumber E (JStr s) = StringToNumber E s"
| "toNumber E (JObj kvs) = StringToNumber E (toString E (JObj kvs))"
| "toNumber E (JArr xs) = StringToNumber E (toString E (JArr xs))"

text \<open>
  Reading a property. No property name the program reads is a built-in of strings,
  numbers or arrays, so on those the read gives \<open>undefined\<close>. On \<open>null\<close> and \<open>undefined\<close>
  the read throws a TypeError: \<open>js_member\<close> makes that a result, and \<open>js_prop\<close> is the read at
  the places where the program has excluded the two (or uses \<open>?.\<close>).
\<close>

definition prop_o :: "obj \<Rightarrow> string \<Rightarrow> jsval" where
  "prop_o kvs k = (case map_of kvs k of Some v \<Rightarrow> v | None \<Rightarrow> Undefined)"

fun js_prop :: "jsval \<Rightarrow> string \<Rightarrow> jsval" where
  "js_prop (JObj kvs) k = prop_o kvs k"
| "js_prop _ k = Undefined"

fun js_member :: "jsval \<Rightarrow> string \<Rightarrow> jsval option" where
  "js_member Undefined k = None"
| "js_member Null k = None"
| "js_member v k = Some (js_prop v k)"

text \<open>
  The own enumerable properties that an object spread \<open>{...v}\<close> copies, each once: of an
  association list the first binding of every key.
\<close>

fun own_props :: "jsval \<Rightarrow> obj" where
  "own_props (JObj kvs) = AList.clearjunk kvs"
| "own_props (JArr xs) = zip (map index_key [0..<length xs]) xs"
| "own_props (JStr s) = zip (map index_key [0..<length s]) (map (\<lambda>c. JStr [c]) s)"
| "own_props _ = []"

text \<open>Defining the properties \<open>ps\<close>, in order, on the object \<open>target\<close>.\<close>

definition obj_assign :: "obj \<Rightarrow> obj \<Rightarrow> obj" where
  "obj_assign target ps = foldl (\<lambda>ob (k, v). AList.update k v ob) target ps"

text \<open>Adding to a \<open>Set\<close>, which iterates in insertion order.\<close>

definition set_add :: "'a list \<Rightarrow> 'a \<Rightarrow> 'a list" where
  "set_add xs x = (if x \<in> set xs then xs else xs @ [x])"


section \<open>Data model\<close>

text \<open>The Metrics object; \<open>count_m\<close> is its field \<open>count\<close>.\<close>

record Metrics =
  count_m :: nat
  used :: nat
  unused :: int
  visited :: nat
  notVisited :: int
  revenue :: jsnum
  points :: jsnum
  bonusRedemptions :: nat
  averageRevenue :: jsnum
  averagePoints :: jsnum

text \<open>What \<open>loadPartnerData\<close> returns; a submission (Visit) is a JavaScript object.\<close>

record partner_data =
  partnerId :: jsval
  submissions :: "obj list"
  metrics :: Metrics
  partnerLabel :: jsval

definition EMPTY_METRICS :: Metrics where
  "EMPTY_METRICS =
     \<lparr>count_m = 0, used = 0, unused = 0, visited = 0, notVisited = 0,
      revenue = Num 0, points = Num 0, bonusRedemptions = 0,
      averageRevenue = Num 0, averagePoints = Num 0\<rparr>"

definition empty_result :: "jsval \<Rightarrow> partner_data" where
  "empty_result pid =
     \<lparr>partnerId = pid, submissions = [], metrics = EMPTY_METRICS, partnerLabel = Null\<rparr>"

section \<open>Payload decoder\<close>

definition normalizePartnerId :: "env \<Rightarrow> jsval \<Rightarrow> string" where
  "normalizePartnerId E pid = toLowerCase (trim (toString E (js_or pid (JStr []))))"

text \<open>
  \<open>parsePayload\<close>. The outer \<open>try\<close> covers the first parse and the read of
  \<open>payload.data\<close> (a TypeError when the parse gave \<open>null\<close>); either failure gives
  \<open>{ rawPayload: record.payload }\<close>. The inner \<open>try\<close> covers the second parse only, and
  its failure leaves the payload as it is.
\<close>

definition parsePayload :: "env \<Rightarrow> obj \<Rightarrow> jsval" where
  "parsePayload E record =
     (let p = prop_o record ''payload'' in
      if \<not> truthy p then JObj []
      else
        (case (case p of JStr s \<Rightarrow> JSON_parse E s | _ \<Rightarrow> Some p) of
           None \<Rightarrow> JObj [(''rawPayload'', p)]
         | Some payload \<Rightarrow>
             (case js_member payload ''data'' of
                None \<Rightarrow> JObj [(''rawPayload'', p)]
              | Some d \<Rightarrow>
                  (case d of
                     JStr ds \<Rightarrow>
                       if ds = [] then payload
                       else
                         (case JSON_parse E ds of
                            None \<Rightarrow> payload
                          | Some nested \<Rightarrow>
                              JObj (obj_assign (obj_assign [] (own_props payload))
                                      (own_props nested)))
                   | _ \<Rightarrow> payload))))"

section \<open>Key resolver\<close>

definition addVisitKeyVariant :: "env \<Rightarrow> string list \<Rightarrow> jsval \<Rightarrow> string list" where
  "addVisitKeyVariant E visitSetKeys v =
     (if \<not> truthy v then visitSetKeys
      else
        (let trimmed = trim (toString E v) in
         if trimmed = [] then visitSetKeys
         else set_add visitSetKeys (''partner:visits:'' @ trimmed)))"

definition visitSetKeys_of :: "env \<Rightarrow> jsval \<Rightarrow> string list" where
  "visitSetKeys_of E pid =
     (let normalizedId = normalizePartnerId E pid;
          k1 = addVisitKeyVariant E [] pid;
          k2 = addVisitKeyVariant E k1 (JStr normalizedId);
          k3 = (if truthy pid
                then addVisitKeyVariant E
                       (addVisitKeyVariant E k2 (JStr (toLowerCase (toString E pid))))
                       (JStr (toUpperCase (toString E pid)))
                else k2)
      in if normalizedId \<noteq> [] then addVisitKeyVariant E k3 (JStr (toUpperCase normalizedId))
         else k3)"

text \<open>The keys of the older email-set scheme: \<open>partner:<normalizedId>\<close> and \<open>partner:<original>\<close>.\<close>

definition emailSetKeys_of :: "env \<Rightarrow> jsval \<Rightarrow> string list" where
  "emailSetKeys_of E pid =
     (let normalizedId = normalizePartnerId E pid;
          k1 = (if normalizedId \<noteq> [] then set_add [] (''partner:'' @ normalizedId) else [])
      in if truthy pid \<and> pid \<noteq> JStr normalizedId
         then set_add k1 (''partner:'' @ toString E pid)
         else k1)"

section \<open>Record loader\<close>

text \<open>The members of the visit sets that are non-empty strings starting with \<open>qr:\<close>.\<close>

definition addMembers :: "string list \<Rightarrow> jsval list \<Rightarrow> string list" where
  "addMembers visitRecordKeys members =
     foldl (\<lambda>acc m. case m of
                       JStr s \<Rightarrow> if s \<noteq> [] \<and> startsWith s ''qr:'' then set_add acc s else acc
                     | _ \<Rightarrow> acc)
           visitRecordKeys members"

definition visitRecordKeys_of :: "env \<Rightarrow> string list \<Rightarrow> string list" where
  "visitRecordKeys_of E visitSetKeys =
     foldl (\<lambda>acc visitSetKey. case smembers E visitSetKey of
                                 Failed \<Rightarrow> acc
                               | Fetched members \<Rightarrow> addMembers acc members)
           [] visitSetKeys"

definition loadRecordFromKey :: "env \<Rightarrow> string \<Rightarrow> obj option" where
  "loadRecordFromKey E visitKey = (case hgetall E visitKey of Failed \<Rightarrow> None | Fetched r \<Rightarrow> r)"

text \<open>\<open>!record || Object.keys(record).length === 0\<close>\<close>

fun record_is_empty :: "obj option \<Rightarrow> bool" where
  "record_is_empty None = True"
| "record_is_empty (Some kvs) = (kvs = [])"

definition is_line_terminator :: "char \<Rightarrow> bool" where
  "is_line_terminator c = (c = CHR 0x0A \<or> c = CHR 0x0D)"

definition not_colon :: "char \<Rightarrow> bool" where
  "not_colon c = (c \<noteq> CHR '':'')"

text \<open>
  The match of \<open>/^qr:([^:]+):([^:]+):(.+)$/\<close>: the three groups. A group of \<open>[^:]+\<close> is the
  longest run without a colon, and \<open>.\<close> takes anything but a line terminator.
\<close>

definition visitKeyMatch :: "string \<Rightarrow> (string \<times> string \<times> string) option" where
  "visitKeyMatch visitKey =
     (if \<not> startsWith visitKey ''qr:'' then None
      else
        (let r = drop 3 visitKey;
             g1 = takeWhile not_colon r;
             r1 = dropWhile not_colon r
         in if g1 = [] \<or> r1 = [] then None
            else
              (let r2 = tl r1;
                   g2 = takeWhile not_colon r2;
                   r3 = dropWhile not_colon r2
               in if g2 = [] \<or> r3 = [] then None
                  else
                    (let g3 = tl r3
                     in if g3 = [] \<or> list_ex is_line_terminator g3 then None
                        else Some (g1, g2, g3)))))"

text \<open>
  The record a member key stands for: its own hash, replaced by the hash under
  \<open>qr:email:<email>\<close> when it is missing or empty, and laid over that hash
  (\<open>{ ...legacyRecord, ...record }\<close>) when both exist. A failed read of the older hash
  leaves the record as it was.
\<close>

definition loadVisitRecord :: "env \<Rightarrow> string \<Rightarrow> string \<Rightarrow> obj option" where
  "loadVisitRecord E visitKey visitEmailFromKey =
     (let record = loadRecordFromKey E visitKey in
      if record_is_empty record then
        (if visitEmailFromKey \<noteq> [] then
           (case hgetall E (''qr:email:'' @ visitEmailFromKey) of
              Failed \<Rightarrow> record
            | Fetched r \<Rightarrow> r)
         else record)
      else if visitEmailFromKey \<noteq> [] then
        (case hgetall E (''qr:email:'' @ visitEmailFromKey) of
           Failed \<Rightarrow> record
         | Fetched legacyRecord \<Rightarrow>
             (case (legacyRecord, record) of
                (Some lr, Some r) \<Rightarrow>
                  if lr \<noteq> []
                  then Some (obj_assign (obj_assign [] (own_props (JObj lr))) (own_props (JObj r)))
                  else record
              | _ \<Rightarrow> record))
      else record)"


section \<open>Visit normalizer\<close>

definition truthyStatuses :: "string list" where
  "truthyStatuses = [''true'', ''used'', ''redeemed'', ''completed'', ''yes'', ''awarded'', ''1'']"

definition visitedStatuses :: "string list" where
  "visitedStatuses =
     [''true'', ''visited'', ''completed'', ''redeemed'', ''checkedin'', ''checked-in'',
      ''checked_in'', ''approved'', ''yes'', ''1'']"

text \<open>
  \<open>[...].filter((value) => value !== undefined && value !== null)
        .map((value) => String(value).trim().toLowerCase())\<close>
\<close>

definition statusStrings :: "env \<Rightarrow> jsval list \<Rightarrow> string list" where
  "statusStrings E vs =
     map (\<lambda>v. toLowerCase (trim (toString E v))) (filter (\<lambda>v. v \<noteq> Undefined \<and> v \<noteq> Null) vs)"

definition isUsed :: "env \<Rightarrow> obj \<Rightarrow> jsval \<Rightarrow> bool" where
  "isUsed E record payload =
     list_ex (\<lambda>v. v \<in> set truthyStatuses)
       (statusStrings E [prop_o record ''used'', js_prop payload ''used'',
                         prop_o record ''status'', js_prop payload ''status''])"

definition visitedByStatus :: "env \<Rightarrow> obj \<Rightarrow> jsval \<Rightarrow> bool" where
  "visitedByStatus E record payload =
     list_ex (\<lambda>v. v \<in> set visitedStatuses)
       (statusStrings E [prop_o record ''visited'', js_prop payload ''visited'',
                         prop_o record ''status'', js_prop payload ''status''])"

definition createdAt_of :: "obj \<Rightarrow> jsval \<Rightarrow> jsval" where
  "createdAt_of record payload =
     foldr js_or
       [prop_o record ''createdAt'', js_prop payload ''createdAt'',
        prop_o record ''updatedAt'', js_prop payload ''updatedAt'',
        prop_o record ''visitedAt'', js_prop payload ''visitedAt'']
       Null"

text \<open>The numeric fields of a record of the visit-set path (\<open>??\<close> chains).\<close>

definition totalPrice_of :: "env \<Rightarrow> obj \<Rightarrow> jsval \<Rightarrow> jsnum" where
  "totalPrice_of E record payload =
     num_or0 (toNumber E
       (foldr js_nullish
          [js_prop payload ''totalPrice'', js_prop payload ''price'',
           prop_o record ''totalPrice'', prop_o record ''price'']
          (JNum (Num 0))))"

definition estimatedPointsValue_of :: "env \<Rightarrow> obj \<Rightarrow> jsval \<Rightarrow> jsnum" where
  "estimatedPointsValue_of E record payload =
     num_or0 (toNumber E
       (foldr js_nullish
          [js_prop payload ''estimatedPoints'', js_prop payload ''points'',
           prop_o record ''estimatedPoints'']
          (JNum (Num 0))))"

definition pointsAwarded_of :: "env \<Rightarrow> obj \<Rightarrow> jsval \<Rightarrow> jsnum" where
  "pointsAwarded_of E record payload =
     num_or0 (toNumber E
       (foldr js_nullish
          [prop_o record ''pointsAwarded'', js_prop payload ''pointsAwarded'']
          (JNum (Num 0))))"

text \<open>\<open>pointsAwarded || estimatedPointsValue\<close>\<close>

definition points_or :: "jsnum \<Rightarrow> jsnum \<Rightarrow> jsnum" where
  "points_or pointsAwarded estimated = (if num_truthy pointsAwarded then pointsAwarded else estimated)"

definition canonicalPartnerId_of :: "env \<Rightarrow> jsval \<Rightarrow> obj \<Rightarrow> string \<Rightarrow> jsval" where
  "canonicalPartnerId_of E pid record visitPartnerFromKey =
     (let normalizedId = normalizePartnerId E pid;
          c = foldr js_or
                [JStr (normalizePartnerId E (prop_o record ''partnerId'')),
                 JStr (normalizePartnerId E (JStr visitPartnerFromKey)),
                 JStr normalizedId]
                (JStr (normalizePartnerId E pid))
      in if \<not> truthy c
         then foldr js_or
                [prop_o record ''partnerId'', JStr visitPartnerFromKey]
                (case pid of JStr s \<Rightarrow> JStr s | _ \<Rightarrow> JStr (toString E (js_or pid (JStr []))))
         else c)"

text \<open>
  The Visit built from the record of a member key (the object literal of the first
  loop): the payload's own properties first, the derived fields over them.
\<close>

definition normalizeVisit ::
  "env \<Rightarrow> jsval \<Rightarrow> string \<Rightarrow> string \<Rightarrow> string \<Rightarrow> jsval \<Rightarrow> obj \<Rightarrow> obj" where
  "normalizeVisit E pid visitKey visitEmailFromKey visitPartnerFromKey visitIdFromKey record =
     (let payload = parsePayload E record;
          totalPrice = totalPrice_of E record payload;
          estimatedPointsValue = estimatedPointsValue_of E record payload;
          pointsAwarded = pointsAwarded_of E record payload;
          isused = isUsed E record payload;
          isvisited = (visitedByStatus E record payload
                       \<or> truthy (prop_o record ''visitedAt'')
                       \<or> truthy (js_prop payload ''visitedAt''));
          canonicalPartnerId = canonicalPartnerId_of E pid record visitPartnerFromKey;
          email = foldr js_or
                    [prop_o record ''email'', js_prop payload ''email'', JStr visitEmailFromKey]
                    (js_or (prop_o record ''normalizedEmail'') (JStr []));
          createdAt = createdAt_of record payload;
          scannedAt = foldr js_or [prop_o record ''scannedAt'', js_prop payload ''scannedAt''] Null
      in obj_assign (obj_assign [] (own_props payload))
           [(''partnerId'', canonicalPartnerId),
            (''visitId'',
               foldr js_or [prop_o record ''visitId'', js_prop payload ''visitId''] visitIdFromKey),
            (''qrKey'', JStr visitKey),
            (''email'', email),
            (''used'', JBool isused),
            (''status'', foldr js_or [prop_o record ''status'', js_prop payload ''status''] Null),
            (''createdAt'', createdAt),
            (''updatedAt'',
               foldr js_or [prop_o record ''updatedAt'', js_prop payload ''updatedAt''] Null),
            (''scannedAt'', scannedAt),
            (''totalPrice'', JNum totalPrice),
            (''estimatedPoints'', JNum (points_or pointsAwarded estimatedPointsValue)),
            (''pointsAwarded'', JNum pointsAwarded),
            (''visited'', JBool isvisited),
            (''visitedAt'',
               foldr js_or [prop_o record ''visitedAt'', js_prop payload ''visitedAt''] Null),
            (''originalPayload'', payload)])"

text \<open>One turn of the first loop: \<open>None\<close> is its \<open>continue\<close>.\<close>

definition visitSubmission :: "env \<Rightarrow> jsval \<Rightarrow> string \<Rightarrow> obj option" where
  "visitSubmission E pid visitKey =
     (let visitMatch = visitKeyMatch visitKey;
          visitEmailFromKey = (case visitMatch of Some (e, p, v) \<Rightarrow> e | None \<Rightarrow> []);
          visitPartnerFromKey = (case visitMatch of Some (e, p, v) \<Rightarrow> p | None \<Rightarrow> []);
          visitIdFromKey = (case visitMatch of Some (e, p, v) \<Rightarrow> JStr v | None \<Rightarrow> Null)
      in case loadVisitRecord E visitKey visitEmailFromKey of
           None \<Rightarrow> None
         | Some record \<Rightarrow>
             if record = [] then None
             else Some (normalizeVisit E pid visitKey visitEmailFromKey visitPartnerFromKey
                          visitIdFromKey record))"

definition visitSubmissions :: "env \<Rightarrow> jsval \<Rightarrow> string list \<Rightarrow> obj list" where
  "visitSubmissions E pid visitRecordKeys = List.map_filter (visitSubmission E pid) visitRecordKeys"

subsection \<open>The fallback to the email sets\<close>

text \<open>
  \<open>Array.from(new Set(emailSets.flat().filter((value) => typeof value === "string" && value)))\<close>,
  a failed read of a set counting as an empty set.
\<close>

definition emails_of :: "env \<Rightarrow> string list \<Rightarrow> string list" where
  "emails_of E keys =
     foldl (\<lambda>acc v. case v of JStr s \<Rightarrow> if s \<noteq> [] then set_add acc s else acc | _ \<Rightarrow> acc) []
       (concat (map (\<lambda>key. case smembers E key of Failed \<Rightarrow> [] | Fetched ms \<Rightarrow> ms) keys))"

text \<open>The numeric fields of a \<open>qr:email:<email>\<close> hash in the second loop (\<open>||\<close> chains).\<close>

definition emailTotalPrice_of :: "env \<Rightarrow> obj \<Rightarrow> jsval \<Rightarrow> jsnum" where
  "emailTotalPrice_of E record payload =
     num_or0 (toNumber E (foldr js_or
       [js_prop payload ''totalPrice'', prop_o record ''totalPrice''] (JNum (Num 0))))"

definition emailEstimatedPoints_of :: "env \<Rightarrow> obj \<Rightarrow> jsval \<Rightarrow> jsnum" where
  "emailEstimatedPoints_of E record payload =
     num_or0 (toNumber E (foldr js_or
       [js_prop payload ''estimatedPoints'', prop_o record ''estimatedPoints''] (JNum (Num 0))))"

definition emailPointsAwarded_of :: "env \<Rightarrow> obj \<Rightarrow> jsval \<Rightarrow> jsnum" where
  "emailPointsAwarded_of E record payload =
     num_or0 (toNumber E (foldr js_or
       [prop_o record ''pointsAwarded'', js_prop payload ''pointsAwarded''] (JNum (Num 0))))"

text \<open>The Visit built from a \<open>qr:email:<email>\<close> hash in the second loop of \<open>partner-data.js\<close>.\<close>

definition emailVisit :: "env \<Rightarrow> jsval \<Rightarrow> obj \<Rightarrow> obj" where
  "emailVisit E pid record =
     (let normalizedId = normalizePartnerId E pid;
          payload = parsePayload E record;
          totalPrice = emailTotalPrice_of E record payload;
          estimatedPoints = emailEstimatedPoints_of E record payload;
          pointsAwarded = emailPointsAwarded_of E record payload;
          isused = isUsed E record payload;
          isvisited = (visitedByStatus E record payload
                       \<or> toLowerCase (toString E (js_or (prop_o record ''visited'') (JStr []))) = ''true''
                       \<or> truthy (prop_o record ''visitedAt'')
                       \<or> truthy (js_prop payload ''visitedAt''));
          createdAt = createdAt_of record payload;
          scannedAt = foldr js_or [prop_o record ''scannedAt'', js_prop payload ''scannedAt''] Null;
          canonicalPartnerId =
            js_or (JStr normalizedId) (JStr (trim (toString E (js_or pid (JStr [])))))
      in obj_assign (obj_assign [] (own_props payload))
           [(''partnerId'', canonicalPartnerId),
            (''email'', prop_o record ''email''),
            (''used'', JBool isused),
            (''createdAt'', createdAt),
            (''scannedAt'', scannedAt),
            (''totalPrice'', JNum totalPrice),
            (''estimatedPoints'', JNum (points_or pointsAwarded estimatedPoints)),
            (''pointsAwarded'', JNum pointsAwarded),
            (''visited'', JBool isvisited),
            (''visitedAt'',
               foldr js_or [prop_o record ''visitedAt'', js_prop payload ''visitedAt''] Null),
            (''originalPayload'', payload)])"

definition emailSubmission :: "env \<Rightarrow> jsval \<Rightarrow> string \<Rightarrow> obj option" where
  "emailSubmission E pid email =
     (case hgetall E (''qr:email:'' @ email) of
        Failed \<Rightarrow> None
      | Fetched None \<Rightarrow> None
      | Fetched (Some record) \<Rightarrow>
          if \<not> truthy (prop_o record ''email'') then None
          else Some (emailVisit E pid record))"

definition emailSubmissions :: "env \<Rightarrow> jsval \<Rightarrow> string list \<Rightarrow> obj list" where
  "emailSubmissions E pid emails = List.map_filter (emailSubmission E pid) emails"

section \<open>Sorting and aggregation\<close>

text \<open>\<open>new Date(v).getTime()\<close>\<close>

definition TimeClip :: "jsnum \<Rightarrow> jsnum" where
  "TimeClip t =
     (case t of
        Num a \<Rightarrow>
          if \<bar>a\<bar> > 8640000000000000 then NaN
          else Num (of_int (if 0 \<le> a then \<lfloor>a\<rfloor> else \<lceil>a\<rceil>))
      | _ \<Rightarrow> NaN)"

fun Date_getTime :: "env \<Rightarrow> jsval \<Rightarrow> jsnum" where
  "Date_getTime E (JStr s) = Date_parse E s"
| "Date_getTime E (JObj kvs) = Date_parse E (toString E (JObj kvs))"
| "Date_getTime E (JArr xs) = Date_parse E (toString E (JArr xs))"
| "Date_getTime E v = TimeClip (toNumber E v)"

definition createdTime :: "env \<Rightarrow> obj \<Rightarrow> jsnum" where
  "createdTime E a = Date_getTime E (js_or (prop_o a ''createdAt'') (JNum (Num 0)))"

text \<open>The comparator \<open>(a, b) => bTime - aTime\<close>.\<close>

definition byCreatedAt :: "env \<Rightarrow> obj \<Rightarrow> obj \<Rightarrow> jsnum" where
  "byCreatedAt E a b = js_sub (createdTime E b) (createdTime E a)"

text \<open>
  \<open>Array.prototype.sort\<close> is a stable sort. For a consistent comparator its result is the
  one stable ordering, which this insertion sort computes: an element goes before the
  first later element that the comparator does not put before it. For a comparator that
  is not consistent, as one with \<open>NaN\<close> among its results can be, the language leaves the
  order to the engine, and the insertion sort gives one of the possible results.
\<close>

fun sort_insert :: "('a \<Rightarrow> 'a \<Rightarrow> jsnum) \<Rightarrow> 'a \<Rightarrow> 'a list \<Rightarrow> 'a list" where
  "sort_insert cmp x [] = [x]"
| "sort_insert cmp x (y # ys) =
     (if cmp_nonpositive (cmp x y) then x # y # ys else y # sort_insert cmp x ys)"

fun array_sort :: "('a \<Rightarrow> 'a \<Rightarrow> jsnum) \<Rightarrow> 'a list \<Rightarrow> 'a list" where
  "array_sort cmp [] = []"
| "array_sort cmp (x # xs) = sort_insert cmp x (array_sort cmp xs)"

text \<open>The five running totals of the \<open>forEach\<close> of \<open>partner-data.js\<close>, one fold each.\<close>

definition submissionPoints :: "env \<Rightarrow> obj \<Rightarrow> jsnum" where
  "submissionPoints E submission =
     (if truthy (prop_o submission ''pointsAwarded'')
      then toNumber E (js_or (prop_o submission ''pointsAwarded'') (JNum (Num 0)))
      else toNumber E (js_or (prop_o submission ''estimatedPoints'') (JNum (Num 0))))"

definition isBonusReward :: "env \<Rightarrow> obj \<Rightarrow> bool" where
  "isBonusReward E submission =
     (toLowerCase (toString E
        (foldr js_or [prop_o submission ''ticket'', prop_o submission ''ticketType''] (JStr [])))
      = ''bonusreward'')"

definition total_revenue :: "env \<Rightarrow> obj list \<Rightarrow> jsnum" where
  "total_revenue E subs =
     foldl (\<lambda>r s. js_add r (toNumber E (js_or (prop_o s ''totalPrice'') (JNum (Num 0))))) (Num 0) subs"

definition total_points :: "env \<Rightarrow> obj list \<Rightarrow> jsnum" where
  "total_points E subs = foldl (\<lambda>p s. js_add p (submissionPoints E s)) (Num 0) subs"

definition count_bonus :: "env \<Rightarrow> obj list \<Rightarrow> nat" where
  "count_bonus E subs = foldl (\<lambda>n s. if isBonusReward E s then n + 1 else n) 0 subs"

definition count_used :: "obj list \<Rightarrow> nat" where
  "count_used subs = foldl (\<lambda>n s. if truthy (prop_o s ''used'') then n + 1 else n) 0 subs"

definition count_visited :: "obj list \<Rightarrow> nat" where
  "count_visited subs = foldl (\<lambda>n s. if truthy (prop_o s ''visited'') then n + 1 else n) 0 subs"

definition labelOf :: "obj \<Rightarrow> jsval" where
  "labelOf submission =
     foldr js_or
       [prop_o submission ''partnerName'',
        prop_o submission ''attractionName'',
        js_prop (prop_o submission ''originalPayload'') ''partnerName'',
        js_prop (prop_o submission ''originalPayload'') ''attractionName'',
        js_prop (prop_o submission ''originalPayload'') ''partnerLabel'']
       Null"

fun findPartnerLabel :: "obj list \<Rightarrow> jsval" where
  "findPartnerLabel [] = Null"
| "findPartnerLabel (s # ss) = (if truthy (labelOf s) then labelOf s else findPartnerLabel ss)"

definition build_metrics :: "obj list \<Rightarrow> jsnum \<Rightarrow> jsnum \<Rightarrow> nat \<Rightarrow> nat \<Rightarrow> nat \<Rightarrow> Metrics" where
  "build_metrics subs rv pts usedCount visitedCount bonus =
     (let n = length subs in
      \<lparr>count_m = n,
       used = usedCount,
       unused = int n - int usedCount,
       visited = visitedCount,
       notVisited = int n - int visitedCount,
       revenue = rv,
       points = pts,
       bonusRedemptions = bonus,
       averageRevenue = (if n \<noteq> 0 then Math_round (js_div_count rv n) else Num 0),
       averagePoints = (if n \<noteq> 0 then Math_round (js_div_count pts n) else Num 0)\<rparr>)"

text \<open>The tail of \<open>loadPartnerData\<close> in \<open>partner-data.js\<close>: sort, totals, label, metrics.\<close>

definition summarize :: "env \<Rightarrow> jsval \<Rightarrow> obj list \<Rightarrow> partner_data" where
  "summarize E pid subs0 =
     (let subs = array_sort (byCreatedAt E) subs0 in
      \<lparr>partnerId = pid,
       submissions = subs,
       metrics = build_metrics subs (total_revenue E subs) (total_points E subs)
                   (count_used subs) (count_visited subs) (count_bonus E subs),
       partnerLabel = findPartnerLabel subs\<rparr>)"

section \<open>loadPartnerData\<close>

definition loadPartnerData :: "env \<Rightarrow> jsval \<Rightarrow> partner_data" where
  "loadPartnerData E pid =
     (let normalizedId = normalizePartnerId E pid in
      if normalizedId = [] \<and> \<not> truthy pid then empty_result pid
      else
        (let visitRecordKeys = visitRecordKeys_of E (visitSetKeys_of E pid);
             subs = visitSubmissions E pid visitRecordKeys
         in if subs = [] then
              (let emails = emails_of E (emailSetKeys_of E pid) in
               if emails = [] then empty_result pid
               else summarize E pid (emailSubmissions E pid emails))
            else summarize E pid subs))"

section \<open>The older copy of loadPartnerData\<close>

text \<open>
  The second file with the same exports reads the email sets only. Its Visit has the
  payload's properties last, so they override the derived fields.
\<close>

definition emailVisit_old :: "env \<Rightarrow> jsval \<Rightarrow> obj \<Rightarrow> obj" where
  "emailVisit_old E pid record =
     (let normalizedId = normalizePartnerId E pid;
          payload = parsePayload E record;
          totalPrice = emailTotalPrice_of E record payload;
          estimatedPoints = emailEstimatedPoints_of E record payload;
          isvisited = (toLowerCase (toString E (js_or (prop_o record ''visited'') (JStr []))) = ''true'');
          canonicalPartnerId =
            js_or (JStr normalizedId) (JStr (trim (toString E (js_or pid (JStr [])))))
      in obj_assign
           (obj_assign []
              [(''partnerId'', canonicalPartnerId),
               (''email'', prop_o record ''email''),
               (''used'',
                  JBool (toLowerCase (toString E (js_or (prop_o record ''used'') (JStr []))) = ''true'')),
               (''createdAt'', js_or (prop_o record ''createdAt'') Null),
               (''scannedAt'', js_or (prop_o record ''scannedAt'') Null),
               (''totalPrice'', JNum totalPrice),
               (''estimatedPoints'', JNum estimatedPoints),
               (''visited'', JBool isvisited),
               (''visitedAt'', js_or (prop_o record ''visitedAt'') Null),
               (''originalPayload'', payload)])
           (own_props payload))"

definition emailSubmission_old :: "env \<Rightarrow> jsval \<Rightarrow> string \<Rightarrow> obj option" where
  "emailSubmission_old E pid email =
     (case hgetall E (''qr:email:'' @ email) of
        Failed \<Rightarrow> None
      | Fetched None \<Rightarrow> None
      | Fetched (Some record) \<Rightarrow>
          if \<not> truthy (prop_o record ''email'') then None
          else Some (emailVisit_old E pid record))"

definition total_points_old :: "env \<Rightarrow> obj list \<Rightarrow> jsnum" where
  "total_points_old E subs =
     foldl (\<lambda>p s. js_add p (toNumber E (js_or (prop_o s ''estimatedPoints'') (JNum (Num 0)))))
       (Num 0) subs"

definition count_bonus_old :: "obj list \<Rightarrow> nat" where
  "count_bonus_old subs =
     foldl (\<lambda>n s. if prop_o s ''ticket'' = JStr ''BonusReward'' then n + 1 else n) 0 subs"

definition summarize_old :: "env \<Rightarrow> jsval \<Rightarrow> obj list \<Rightarrow> partner_data" where
  "summarize_old E pid subs0 =
     (let subs = array_sort (byCreatedAt E) subs0 in
      \<lparr>partnerId = pid,
       submissions = subs,
       metrics = build_metrics subs (total_revenue E subs) (total_points_old E subs)
                   (count_used subs) (count_visited subs) (count_bonus_old subs),
       partnerLabel = findPartnerLabel subs\<rparr>)"

definition loadPartnerData_old :: "env \<Rightarrow> jsval \<Rightarrow> partner_data" where
  "loadPartnerData_old E pid =
     (let normalizedId = normalizePartnerId E pid in
      if normalizedId = [] \<and> \<not> truthy pid then empty_result pid
      else
        (let emails = emails_of E (emailSetKeys_of E pid) in
         if emails = [] then empty_result pid
         else summarize_old E pid (List.map_filter (emailSubmission_old E pid) emails)))"

section \<open>The sort of the partner dashboard\<close>

text \<open>
  The client (\<open>zabava_frontend/src/hooks/usePartnerData.ts\<close>, and the same code once more
  as \<open>getSubmissionTimestamp\<close> and \<open>sortSubmissionsByCreatedAt\<close>) sorts the ledger again
  before display. Its \<open>getTimestamp\<close> gives time 0 to a missing \<open>createdAt\<close> and also to
  one that does not parse.
\<close>

definition getTimestamp :: "env \<Rightarrow> jsval \<Rightarrow> jsnum" where
  "getTimestamp E v =
     (if \<not> truthy v then Num 0
      else (case Date_getTime E v of NaN \<Rightarrow> Num 0 | t \<Rightarrow> t))"

text \<open>\<open>(a, b) => getTimestamp(b?.createdAt ?? null) - getTimestamp(a?.createdAt ?? null)\<close>\<close>

definition byTimestamp :: "env \<Rightarrow> obj \<Rightarrow> obj \<Rightarrow> jsnum" where
  "byTimestamp E a b =
     js_sub (getTimestamp E (js_nullish (prop_o b ''createdAt'') Null))
            (getTimestamp E (js_nullish (prop_o a ''createdAt'') Null))"

definition sortPartnerSubmissions :: "env \<Rightarrow> obj list \<Rightarrow> obj list" where
  "sortPartnerSubmissions E subs = array_sort (byTimestamp E) subs"

section \<open>Notions of the specification\<close>






text \<open>The values of one field along a ledger.\<close>

definition field_values :: "string \<Rightarrow> obj list \<Rightarrow> jsval list" where
  "field_values k subs = map (\<lambda>s. prop_o s k) subs"

text \<open>The times the comparator of \<open>loadPartnerData\<close> reads along a ledger.\<close>

definition created_times :: "env \<Rightarrow> obj list \<Rightarrow> jsnum list" where
  "created_times E subs = map (createdTime E) subs"

text \<open>
  A key holds no data: the set under it has no member, or its read fails; the hash under
  it is missing or empty, or its read fails.
\<close>

definition no_members :: "env \<Rightarrow> string \<Rightarrow> bool" where
  "no_members E k = (case smembers E k of Failed \<Rightarrow> True | Fetched ms \<Rightarrow> ms = [])"

definition no_hash :: "env \<Rightarrow> string \<Rightarrow> bool" where
  "no_hash E k = (case hgetall E k of Failed \<Rightarrow> True | Fetched r \<Rightarrow> record_is_empty r)"

text \<open>
  The keys whose hash a call can read: every member key of the visit sets, the key
  \<open>qr:email:<email>\<close> of the e-mail address in a member key, and the key
  \<open>qr:email:<email>\<close> of every member of the email sets.
\<close>

definition hash_keys_of_member :: "string \<Rightarrow> string list" where
  "hash_keys_of_member visitKey =
     visitKey # (case visitKeyMatch visitKey of
                   Some (e, p, v) \<Rightarrow> [''qr:email:'' @ e]
                 | None \<Rightarrow> [])"

definition hashes_read :: "env \<Rightarrow> jsval \<Rightarrow> string list" where
  "hashes_read E pid =
     concat (map hash_keys_of_member (visitRecordKeys_of E (visitSetKeys_of E pid)))
     @ map (\<lambda>email. ''qr:email:'' @ email) (emails_of E (emailSetKeys_of E pid))"

text \<open>The Visit made for a member key carries the key as \<open>qrKey\<close>.\<close>

definition hasQrKey :: "string \<Rightarrow> obj \<Rightarrow> bool" where
  "hasQrKey k s = (prop_o s ''qrKey'' = JStr k)"

text \<open>The visit-set keys of an identifier whose trimmed form is \<open>t\<close>.\<close>

definition variant_keys :: "string \<Rightarrow> string list" where
  "variant_keys t =
     (if t = [] then []
      else set_add
             (set_add [''partner:visits:'' @ t] (''partner:visits:'' @ toLowerCase t))
             (''partner:visits:'' @ toUpperCase t))"

section \<open>Example stores\<close>

text \<open>
  Concrete stores for the examples below. The platform functions are given on the
  arguments a run reaches; a hash value is a number, boolean, string or object, as the
  store's client hands it over.
\<close>

definition awarded_env :: env where
  "awarded_env =
     \<lparr>JSON_parse = (\<lambda>s. None),
      StringToNumber = (\<lambda>s. NaN),
      Date_parse = (\<lambda>s. NaN),
      NumberToString = (\<lambda>n. []),
      smembers = (\<lambda>k. if k = ''partner:visits:p1''
                       then Fetched [JStr ''qr:a@x.com:p1:v1'', JStr ''qr:b@x.com:p1:v2'']
                       else Fetched []),
      hgetall = (\<lambda>k.
        if k = ''qr:a@x.com:p1:v1'' then
          Fetched (Some [(''email'', JStr ''a@x.com''), (''estimatedPoints'', JNum (Num 10)),
                         (''pointsAwarded'', JNum (Num 25)), (''createdAt'', JNum (Num 2000))])
        else if k = ''qr:b@x.com:p1:v2'' then
          Fetched (Some [(''email'', JStr ''b@x.com''), (''estimatedPoints'', JNum (Num 20)),
                         (''createdAt'', JNum (Num 1000))])
        else Fetched None)\<rparr>"

definition ledger_env :: env where
  "ledger_env =
     \<lparr>JSON_parse = (\<lambda>s. None),
      StringToNumber = (\<lambda>s. NaN),
      Date_parse = (\<lambda>s. NaN),
      NumberToString = (\<lambda>n. []),
      smembers = (\<lambda>k. if k = ''partner:visits:p1''
                       then Fetched [JStr ''qr:a@x.com:p1:v1'', JStr ''qr:b@x.com:p1:v2'',
                                     JStr ''qr:c@x.com:p1:v3'']
                       else Fetched []),
      hgetall = (\<lambda>k.
        if k = ''qr:a@x.com:p1:v1'' then
          Fetched (Some [(''email'', JStr ''a@x.com''), (''totalPrice'', JNum (Num 100)),
                         (''estimatedPoints'', JNum (Num 10)), (''createdAt'', JNum (Num 1000))])
        else if k = ''qr:b@x.com:p1:v2'' then
          Fetched (Some [(''email'', JStr ''b@x.com''), (''totalPrice'', JNum (Num 200)),
                         (''estimatedPoints'', JNum (Num 20)), (''createdAt'', JNum (Num 3000))])
        else if k = ''qr:c@x.com:p1:v3'' then
          Fetched (Some [(''email'', JStr ''c@x.com''), (''totalPrice'', JNum (Num 0)),
                         (''estimatedPoints'', JNum (Num 5))])
        else Fetched None)\<rparr>"

definition bonus_env :: env where
  "bonus_env =
     \<lparr>JSON_parse = (\<lambda>s. None),
      StringToNumber = (\<lambda>s. NaN),
      Date_parse = (\<lambda>s. NaN),
      NumberToString = (\<lambda>n. []),
      smembers = (\<lambda>k. if k = ''partner:p1'' then Fetched [JStr ''a@x.com''] else Fetched []),
      hgetall = (\<lambda>k.
        if k = ''qr:email:a@x.com'' then
          Fetched (Some [(''email'', JStr ''a@x.com''),
                         (''payload'', JObj [(''ticket'', JStr ''bonusreward'')])])
        else Fetched None)\<rparr>"

text \<open>
  The double-encoded payload of the specification's scenario, a backslash before every
  inner quote, and a store whose \<open>JSON.parse\<close> is given on its two texts.
\<close>

definition esc_quote :: string where
  "esc_quote = [CHR 0x5C, CHR 0x22]"

definition scenario_data :: string where
  \<open>scenario_data = ''{"ticket":"VIP","totalPrice":500}''\<close>

definition scenario_payload :: string where
  \<open>scenario_payload =
     ''{"data":"{'' @ esc_quote @ ''ticket'' @ esc_quote @ '':'' @ esc_quote @ ''VIP'' @ esc_quote
       @ '','' @ esc_quote @ ''totalPrice'' @ esc_quote @ '':500}"}''\<close>

definition scenario_env :: env where
  "scenario_env =
     \<lparr>JSON_parse = (\<lambda>s.
        if s = scenario_payload then Some (JObj [(''data'', JStr scenario_data)])
        else if s = scenario_data
        then Some (JObj [(''ticket'', JStr ''VIP''), (''totalPrice'', JNum (Num 500))])
        else None),
      StringToNumber = (\<lambda>s. NaN),
      Date_parse = (\<lambda>s. NaN),
      NumberToString = (\<lambda>n. []),
      smembers = (\<lambda>k. Fetched []),
      hgetall = (\<lambda>k. Fetched None)\<rparr>"

definition conflict_text :: string where
  \<open>conflict_text = ''{"ticket":"VIP"}''\<close>

definition conflict_env :: env where
  "conflict_env =
     \<lparr>JSON_parse = (\<lambda>s. if s = conflict_text then Some (JObj [(''ticket'', JStr ''VIP'')]) else None),
      StringToNumber = (\<lambda>s. NaN),
      Date_parse = (\<lambda>s. NaN),
      NumberToString = (\<lambda>n. []),
      smembers = (\<lambda>k. Fetched []),
      hgetall = (\<lambda>k. Fetched None)\<rparr>"

definition conflict_record :: obj where
  "conflict_record =
     [(''payload'', JObj [(''data'', JStr conflict_text), (''ticket'', JStr ''STD'')])]"

definition unparseable_env :: env where
  "unparseable_env =
     \<lparr>JSON_parse = (\<lambda>s. None),
      StringToNumber = (\<lambda>s. NaN),
      Date_parse = (\<lambda>s. if s = ''2024-01-01'' then Num 1704067200000 else NaN),
      NumberToString = (\<lambda>n. []),
      smembers = (\<lambda>k. if k = ''partner:visits:p1''
                       then Fetched [JStr ''qr:a@x.com:p1:v1'', JStr ''qr:b@x.com:p1:v2'']
                       else if k = ''partner:p1''
                       then Fetched [JStr ''a@x.com'', JStr ''b@x.com'']
                       else Fetched []),
      hgetall = (\<lambda>k.
        if k = ''qr:a@x.com:p1:v1'' \<or> k = ''qr:email:a@x.com'' then
          Fetched (Some [(''email'', JStr ''a@x.com''), (''createdAt'', JStr ''garbage'')])
        else if k = ''qr:b@x.com:p1:v2'' \<or> k = ''qr:email:b@x.com'' then
          Fetched (Some [(''email'', JStr ''b@x.com''), (''createdAt'', JStr ''2024-01-01'')])
        else Fetched None)\<rparr>"


text \<open>
  A store with an email set under the key \<open>partner:\<close> followed by one space, and a store
  whose visit set and email set have members while no hash exists.
\<close>

definition blank_env :: env where
  "blank_env =
     \<lparr>JSON_parse = (\<lambda>s. None),
      StringToNumber = (\<lambda>s. NaN),
      Date_parse = (\<lambda>s. NaN),
      NumberToString = (\<lambda>n. []),
      smembers = (\<lambda>k. if k = ''partner: '' then Fetched [JStr ''a@x.com''] else Fetched []),
      hgetall = (\<lambda>k.
        if k = ''qr:email:a@x.com'' then
          Fetched (Some [(''email'', JStr ''a@x.com''), (''totalPrice'', JNum (Num 100))])
        else Fetched None)\<rparr>"

definition nohash_env :: env where
  "nohash_env =
     \<lparr>JSON_parse = (\<lambda>s. None),
      StringToNumber = (\<lambda>s. NaN),
      Date_parse = (\<lambda>s. NaN),
      NumberToString = (\<lambda>n. []),
      smembers = (\<lambda>k. if k = ''partner:visits:p1''
                       then Fetched [JStr ''qr:a@x.com:p1:v1'']
                       else if k = ''partner:p1''
                       then Fetched [JStr ''b@x.com'']
                       else Fetched []),
      hgetall = (\<lambda>k. if k = ''qr:a@x.com:p1:v1'' then Failed
                      else if k = ''qr:email:a@x.com'' then Fetched (Some [])
                      else Fetched None)\<rparr>"

text \<open>
  The merge scenario of the specification, and a store in which the older hash carries a
  payload with a price while the current hash has a price of its own.
\<close>

definition merge_env :: env where
  "merge_env =
     \<lparr>JSON_parse = (\<lambda>s. None),
      StringToNumber = (\<lambda>s. NaN),
      Date_parse = (\<lambda>s. if s = ''2024-01-01'' then Num 1704067200000 else NaN),
      NumberToString = (\<lambda>n. []),
      smembers = (\<lambda>k. if k = ''partner:visits:P1'' then Fetched [JStr ''qr:a@x.com:P1:v1'']
                       else Fetched []),
      hgetall = (\<lambda>k.
        if k = ''qr:a@x.com:P1:v1'' then
          Fetched (Some [(''visited'', JBool True), (''visitedAt'', JStr ''2024-01-01'')])
        else if k = ''qr:email:a@x.com'' then
          Fetched (Some [(''totalPrice'', JNum (Num 100))])
        else Fetched None)\<rparr>"

definition payload_env :: env where
  "payload_env =
     \<lparr>JSON_parse = (\<lambda>s. None),
      StringToNumber = (\<lambda>s. NaN),
      Date_parse = (\<lambda>s. NaN),
      NumberToString = (\<lambda>n. []),
      smembers = (\<lambda>k. if k = ''partner:visits:P1'' then Fetched [JStr ''qr:a@x.com:P1:v1'']
                       else Fetched []),
      hgetall = (\<lambda>k.
        if k = ''qr:a@x.com:P1:v1'' then
          Fetched (Some [(''totalPrice'', JNum (Num 200)), (''visited'', JBool True)])
        else if k = ''qr:email:a@x.com'' then
          Fetched (Some [(''email'', JStr ''a@x.com''),
                         (''payload'', JObj [(''totalPrice'', JNum (Num 100))])])
        else Fetched None)\<rparr>"

text \<open>A store whose only visit set is under a key of mixed letter case.\<close>

definition mixed_env :: env where
  "mixed_env =
     \<lparr>JSON_parse = (\<lambda>s. None),
      StringToNumber = (\<lambda>s. NaN),
      Date_parse = (\<lambda>s. NaN),
      NumberToString = (\<lambda>n. []),
      smembers = (\<lambda>k. if k = ''partner:visits:MiXed'' then Fetched [JStr ''qr:a@x.com:MiXed:v1'']
                       else Fetched []),
      hgetall = (\<lambda>k.
        if k = ''qr:a@x.com:MiXed:v1'' then
          Fetched (Some [(''email'', JStr ''a@x.com''), (''totalPrice'', JNum (Num 50))])
        else Fetched None)\<rparr>"

section \<open>Auxiliary facts\<close>

subsection \<open>Objects\<close>

lemma map_of_obj_assign: "map_of (obj_assign t ps) = map_of t ++ map_of (rev ps)"
proof (induction ps arbitrary: t)
  case Nil
  then show ?case by (simp add: obj_assign_def)
next
  case (Cons q qs)
  obtain k v where q: "q = (k, v)" by (cases q)
  have "obj_assign t (q # qs) = obj_assign (AList.update k v t) qs"
    by (simp add: obj_assign_def q)
  then show ?case
    by (simp add: Cons.IH update_conv' q map_add_def fun_eq_iff split: option.splits)
qed

lemma prop_o_obj_assign:
  "prop_o (obj_assign t ps) k = (case map_of (rev ps) k of Some v \<Rightarrow> v | None \<Rightarrow> prop_o t k)"
  by (simp add: prop_o_def map_of_obj_assign map_add_def split: option.splits)

subsection \<open>Numbers\<close>

lemma num_or0_not_NaN: "num_or0 x \<noteq> NaN"
  by (cases x) (auto simp: num_or0_def)

lemma num_truthy_num_or0: "num_truthy (num_or0 x) = (num_or0 x \<noteq> Num 0)"
  by (cases x) (auto simp: num_or0_def)


subsection \<open>The nearest double\<close>




















subsection \<open>Sorting keeps the elements\<close>

lemma length_sort_insert: "length (sort_insert cmp x xs) = Suc (length xs)"
  by (induction xs) auto

lemma length_array_sort: "length (array_sort cmp xs) = length xs"
  by (induction xs) (auto simp: length_sort_insert)

lemma set_sort_insert: "set (sort_insert cmp x xs) = insert x (set xs)"
  by (induction xs) auto

lemma set_array_sort: "set (array_sort cmp xs) = set xs"
  by (induction xs) (auto simp: set_sort_insert)

subsection \<open>Where a Visit of the ledger comes from\<close>

lemma set_map_filter: "set (List.map_filter f xs) = {y. \<exists>x \<in> set xs. f x = Some y}"
  by (induction xs) (auto simp: List.map_filter_simps split: option.splits)

lemma loadPartnerData_cases:
  "loadPartnerData E pid = empty_result pid \<or> (\<exists>subs. loadPartnerData E pid = summarize E pid subs)"
  by (auto simp: loadPartnerData_def Let_def)

lemma loadPartnerData_old_cases:
  "loadPartnerData_old E pid = empty_result pid
   \<or> (\<exists>subs. loadPartnerData_old E pid = summarize_old E pid subs)"
  by (auto simp: loadPartnerData_old_def Let_def)

lemma visitSubmission_SomeD:
  "visitSubmission E pid k = Some s \<Longrightarrow> \<exists>e p v r. s = normalizeVisit E pid k e p v r"
  by (auto simp: visitSubmission_def Let_def split: option.splits if_splits)

lemma emailSubmission_SomeD:
  "emailSubmission E pid em = Some s \<Longrightarrow> \<exists>r. s = emailVisit E pid r"
  by (auto simp: emailSubmission_def split: fetch.splits option.splits if_splits)

lemma submissions_origin:
  assumes "s \<in> set (submissions (loadPartnerData E pid))"
  shows "(\<exists>k e p v r. s = normalizeVisit E pid k e p v r) \<or> (\<exists>r. s = emailVisit E pid r)"
proof -
  let ?keys = "visitRecordKeys_of E (visitSetKeys_of E pid)"
  let ?ems = "emails_of E (emailSetKeys_of E pid)"
  from assms have "s \<in> set (visitSubmissions E pid ?keys) \<or> s \<in> set (emailSubmissions E pid ?ems)"
    by (auto simp: loadPartnerData_def Let_def empty_result_def summarize_def set_array_sort
             split: if_splits)
  then show ?thesis
  proof
    assume "s \<in> set (visitSubmissions E pid ?keys)"
    then obtain k where "visitSubmission E pid k = Some s"
      by (auto simp: visitSubmissions_def set_map_filter)
    then show ?thesis using visitSubmission_SomeD by blast
  next
    assume "s \<in> set (emailSubmissions E pid ?ems)"
    then obtain em where "emailSubmission E pid em = Some s"
      by (auto simp: emailSubmissions_def set_map_filter)
    then show ?thesis using emailSubmission_SomeD by blast
  qed
qed

subsection \<open>The point fields of a Visit\<close>

lemma normalizeVisit_pointsAwarded:
  "prop_o (normalizeVisit E pid k e p v r) ''pointsAwarded''
     = JNum (pointsAwarded_of E r (parsePayload E r))"
  by (simp add: normalizeVisit_def Let_def prop_o_obj_assign)

lemma normalizeVisit_estimatedPoints:
  "prop_o (normalizeVisit E pid k e p v r) ''estimatedPoints'' =
     JNum (points_or (pointsAwarded_of E r (parsePayload E r))
             (estimatedPointsValue_of E r (parsePayload E r)))"
  by (simp add: normalizeVisit_def Let_def prop_o_obj_assign)

lemma emailVisit_pointsAwarded:
  "prop_o (emailVisit E pid r) ''pointsAwarded''
     = JNum (emailPointsAwarded_of E r (parsePayload E r))"
  by (simp add: emailVisit_def Let_def prop_o_obj_assign)

lemma emailVisit_estimatedPoints:
  "prop_o (emailVisit E pid r) ''estimatedPoints'' =
     JNum (points_or (emailPointsAwarded_of E r (parsePayload E r))
             (emailEstimatedPoints_of E r (parsePayload E r)))"
  by (simp add: emailVisit_def Let_def prop_o_obj_assign)





lemma awarded_fields:
  "field_values ''pointsAwarded'' (submissions (loadPartnerData awarded_env (JStr ''p1'')))
     = [JNum (Num 25), JNum (Num 0)]
   \<and> field_values ''estimatedPoints'' (submissions (loadPartnerData awarded_env (JStr ''p1'')))
     = [JNum (Num 25), JNum (Num 20)]"
  by code_simp

subsection \<open>Averages and counts\<close>







subsection \<open>Spreading an object\<close>

lemma map_of_rev_distinct: "distinct (map fst xs) \<Longrightarrow> map_of (rev xs) = map_of xs"
  by (subst map_of_inject_set) (simp_all add: rev_map [symmetric])

lemma map_of_rev_clearjunk: "map_of (rev (AList.clearjunk kvs)) = map_of kvs"
  by (simp add: map_of_rev_distinct distinct_clearjunk map_of_clearjunk)

lemma prop_o_spread_clearjunk: "prop_o (obj_assign [] (AList.clearjunk kvs)) k = prop_o kvs k"
  by (simp add: prop_o_def map_of_obj_assign map_of_rev_clearjunk)

subsection \<open>Sorting permutes the ledger\<close>

lemma mset_sort_insert: "mset (sort_insert cmp x xs) = add_mset x (mset xs)"
  by (induction xs) auto

lemma mset_array_sort: "mset (array_sort cmp xs) = mset xs"
  by (induction xs) (auto simp: mset_sort_insert)

subsection \<open>Keys without data\<close>

lemma visitRecordKeys_of_no_members:
  assumes "list_all (no_members E) keys"
  shows "visitRecordKeys_of E keys = []"
proof -
  have "foldl (\<lambda>acc visitSetKey. case smembers E visitSetKey of
                                 Failed \<Rightarrow> acc
                               | Fetched members \<Rightarrow> addMembers acc members) acc keys = acc" for acc
    using assms
    by (induction keys arbitrary: acc)
       (auto simp: no_members_def addMembers_def split: fetch.splits)
  then show ?thesis by (simp add: visitRecordKeys_of_def)
qed

lemma emails_of_no_members:
  assumes "list_all (no_members E) keys"
  shows "emails_of E keys = []"
proof -
  have c: "concat (map (\<lambda>key. case smembers E key of Failed \<Rightarrow> [] | Fetched ms \<Rightarrow> ms) keys) = []"
    using assms by (induction keys) (auto simp: no_members_def split: fetch.splits)
  show ?thesis unfolding emails_of_def c by simp
qed

lemma summarize_Nil: "summarize E pid [] = empty_result pid"
  by (simp add: summarize_def build_metrics_def empty_result_def EMPTY_METRICS_def
        total_revenue_def total_points_def count_used_def count_visited_def count_bonus_def)

lemma visitSubmission_no_hash:
  assumes "\<forall>k. no_hash E k"
  shows "visitSubmission E pid key = None"
proof -
  have h: "hgetall E k = Failed \<or> hgetall E k = Fetched None \<or> hgetall E k = Fetched (Some [])" for k
    using assms [rule_format, of k]
    by (cases "hgetall E k") (auto simp: no_hash_def elim: record_is_empty.elims)
  have r: "record_is_empty (loadVisitRecord E key e)" for e
    using h [of key] h [of "''qr:email:'' @ e"]
    by (auto simp: loadVisitRecord_def loadRecordFromKey_def Let_def)
  have "(case loadVisitRecord E key e of
           None \<Rightarrow> None
         | Some record \<Rightarrow> if record = [] then None else Some (F record)) = None" for e F
    using r [of e] by (cases "loadVisitRecord E key e") auto
  then show ?thesis
    by (simp add: visitSubmission_def Let_def)
qed

lemma emailSubmission_no_hash:
  assumes "\<forall>k. no_hash E k"
  shows "emailSubmission E pid em = None"
  using assms [rule_format, of "''qr:email:'' @ em"]
  by (auto simp: emailSubmission_def no_hash_def prop_o_def split: fetch.splits option.splits)

lemma map_filter_None: "(\<And>x. f x = None) \<Longrightarrow> List.map_filter f xs = []"
  by (induction xs) (simp_all add: List.map_filter_simps)

subsection \<open>The record of a member key\<close>

lemma visitKeyMatch_email_nonempty: "visitKeyMatch k = Some (e, p, v) \<Longrightarrow> e \<noteq> []"
  by (auto simp: visitKeyMatch_def Let_def split: if_splits)

lemma loadVisitRecord_both:
  assumes "e \<noteq> []" "hgetall E k = Fetched (Some cur)" "cur \<noteq> []"
    "hgetall E (''qr:email:'' @ e) = Fetched (Some leg)" "leg \<noteq> []"
  shows "loadVisitRecord E k e
           = Some (obj_assign (obj_assign [] (AList.clearjunk leg)) (AList.clearjunk cur))"
  using assms by (simp add: loadVisitRecord_def loadRecordFromKey_def Let_def)

lemma map_of_merged:
  "map_of (obj_assign (obj_assign [] (AList.clearjunk leg)) (AList.clearjunk cur)) f
     = (case map_of cur f of Some x \<Rightarrow> Some x | None \<Rightarrow> map_of leg f)"
  by (simp add: map_of_obj_assign map_of_rev_clearjunk map_add_def)

lemma merged_nonempty:
  assumes "cur \<noteq> []"
  shows "obj_assign (obj_assign [] (AList.clearjunk leg)) (AList.clearjunk cur) \<noteq> []"
proof
  assume "obj_assign (obj_assign [] (AList.clearjunk leg)) (AList.clearjunk cur) = []"
  then have "map_of (obj_assign (obj_assign [] (AList.clearjunk leg)) (AList.clearjunk cur))
               (fst (hd cur)) = None"
    by simp
  moreover from assms have "map_of cur (fst (hd cur)) \<noteq> None"
    by (cases cur) auto
  ultimately show False by (simp add: map_of_merged split: option.splits)
qed

lemma normalizeVisit_qrKey: "prop_o (normalizeVisit E pid k e p v r) ''qrKey'' = JStr k"
  by (simp add: normalizeVisit_def Let_def prop_o_obj_assign)

lemma visitSubmission_qrKey: "visitSubmission E pid k = Some s \<Longrightarrow> prop_o s ''qrKey'' = JStr k"
  using visitSubmission_SomeD [of E pid k s] by (auto simp: normalizeVisit_qrKey)

lemma distinct_set_add: "distinct xs \<Longrightarrow> distinct (set_add xs x)"
  by (simp add: set_add_def)

lemma distinct_addMembers: "distinct acc \<Longrightarrow> distinct (addMembers acc ms)"
  unfolding addMembers_def
  by (induction ms arbitrary: acc) (auto simp: distinct_set_add split: jsval.splits)

lemma distinct_visitRecordKeys: "distinct (visitRecordKeys_of E keys)"
proof -
  have "distinct acc \<Longrightarrow>
        distinct (foldl (\<lambda>acc visitSetKey. case smembers E visitSetKey of
                                 Failed \<Rightarrow> acc
                               | Fetched members \<Rightarrow> addMembers acc members) acc keys)" for acc
    by (induction keys arbitrary: acc) (auto simp: distinct_addMembers split: fetch.splits)
  then show ?thesis by (simp add: visitRecordKeys_of_def)
qed

lemma count_in_map_filter:
  assumes "distinct keys" and "\<And>k' s. f k' = Some s \<Longrightarrow> P s = (k' = k)"
  shows "length (filter P (List.map_filter f keys)) = (if k \<in> set keys \<and> f k \<noteq> None then 1 else 0)"
  using assms(1)
proof (induction keys)
  case Nil
  then show ?case by (simp add: List.map_filter_simps)
next
  case (Cons a keys)
  then show ?case
    using assms(2) [of a]
    by (cases "f a") (auto simp: List.map_filter_simps)
qed

lemma length_filter_array_sort:
  "length (filter P (array_sort cmp xs)) = length (filter P xs)"
proof -
  have "mset (filter P (array_sort cmp xs)) = mset (filter P xs)"
    by (simp add: mset_array_sort)
  then show ?thesis by (metis size_mset)
qed

lemma visitSetKeys_empty_id:
  assumes "normalizePartnerId E pid = []" "\<not> truthy pid"
  shows "visitSetKeys_of E pid = []"
  using assms by (simp add: visitSetKeys_of_def Let_def addVisitKeyVariant_def)

lemma visitRecordKeys_Nil: "visitRecordKeys_of E [] = []"
  by (simp add: visitRecordKeys_of_def)

subsection \<open>Trimming, letter case and the key variants\<close>

lemma is_space_lower_char: "is_space (lower_char c) = is_space c"
  by (auto simp: is_space_def lower_char_def Let_def)

lemma is_space_upper_char: "is_space (upper_char c) = is_space c"
  by (auto simp: is_space_def upper_char_def Let_def)

lemma upper_lower_char: "upper_char (lower_char c) = upper_char c"
  by (auto simp: upper_char_def lower_char_def Let_def)

lemma trim_map:
  assumes "\<And>c. is_space (f c) = is_space c"
  shows "trim (map f s) = map f (trim s)"
proof -
  have "is_space \<circ> f = is_space" using assms by (simp add: fun_eq_iff)
  then show ?thesis by (simp add: trim_def dropWhile_map rev_map)
qed

lemma trim_toLowerCase: "trim (toLowerCase s) = toLowerCase (trim s)"
  unfolding toLowerCase_def by (rule trim_map) (rule is_space_lower_char)

lemma trim_toUpperCase: "trim (toUpperCase s) = toUpperCase (trim s)"
  unfolding toUpperCase_def by (rule trim_map) (rule is_space_upper_char)

lemma toUpperCase_toLowerCase: "toUpperCase (toLowerCase s) = toUpperCase s"
  by (simp add: toUpperCase_def toLowerCase_def upper_lower_char)

lemma dropWhile_no_head: "xs = [] \<or> \<not> P (hd xs) \<Longrightarrow> dropWhile P xs = xs"
  by (cases xs) auto

lemma trim_trim: "trim (trim s) = trim s"
proof -
  define u where "u = dropWhile is_space s"
  define w where "w = dropWhile is_space (rev u)"
  have w: "w = [] \<or> \<not> is_space (hd w)"
    unfolding w_def using hd_dropWhile [of is_space "rev u"] by blast
  have u: "u = [] \<or> \<not> is_space (hd u)"
    unfolding u_def using hd_dropWhile [of is_space s] by blast
  have "rev u = takeWhile is_space (rev u) @ w" by (simp add: w_def)
  then have split: "u = rev w @ rev (takeWhile is_space (rev u))"
    by (metis rev_append rev_rev_ident)
  have rw: "rev w = [] \<or> \<not> is_space (hd (rev w))"
  proof (cases "rev w = []")
    case True
    then show ?thesis by blast
  next
    case False
    then have "hd u = hd (rev w)" using split by (metis hd_append2)
    moreover from False split have "u \<noteq> []" by auto
    ultimately show ?thesis using u by simp
  qed
  have a: "dropWhile is_space (rev w) = rev w" using rw by (rule dropWhile_no_head)
  have b: "dropWhile is_space w = w" using w by (rule dropWhile_no_head)
  have "trim s = rev w" by (simp add: trim_def u_def w_def)
  moreover have "trim (rev w) = rev w" by (simp add: trim_def a b)
  ultimately show ?thesis by simp
qed

lemma toLowerCase_Nil_iff: "toLowerCase s = [] \<longleftrightarrow> s = []"
  by (simp add: toLowerCase_def)

lemma toUpperCase_Nil_iff: "toUpperCase s = [] \<longleftrightarrow> s = []"
  by (simp add: toUpperCase_def)

lemma trim_Nil: "trim [] = []"
  by (simp add: trim_def)

lemma normalizePartnerId_JStr: "normalizePartnerId E (JStr s) = toLowerCase (trim s)"
  by (simp add: normalizePartnerId_def js_or_def)

lemma set_add_idem: "set_add (set_add xs x) x = set_add xs x"
  by (simp add: set_add_def)

lemma visitSetKeys_of_JStr: "visitSetKeys_of E (JStr s) = variant_keys (trim s)"
proof (cases "trim s = []")
  case True
  then show ?thesis
    by (simp add: visitSetKeys_of_def Let_def addVisitKeyVariant_def variant_keys_def
          normalizePartnerId_JStr trim_toLowerCase trim_toUpperCase toLowerCase_Nil_iff
          toUpperCase_Nil_iff)
next
  case False
  then have "s \<noteq> []" by (auto simp: trim_Nil)
  with False show ?thesis
    by (simp add: visitSetKeys_of_def Let_def addVisitKeyVariant_def variant_keys_def
          normalizePartnerId_JStr trim_toLowerCase trim_toUpperCase trim_trim
          toLowerCase_Nil_iff toUpperCase_Nil_iff toUpperCase_toLowerCase set_add_idem)
       (simp add: set_add_def)
qed


lemma variant_keys_Nil_iff: "variant_keys t = [] \<longleftrightarrow> t = []"
  by (simp add: variant_keys_def set_add_def)

lemma canonicalPartnerId_of_cong:
  assumes "normalizePartnerId E pid1 = normalizePartnerId E pid2"
    and "normalizePartnerId E pid1 \<noteq> []"
  shows "canonicalPartnerId_of E pid1 r p = canonicalPartnerId_of E pid2 r p"
  using assms by (simp add: canonicalPartnerId_of_def Let_def js_or_def)

lemma normalizeVisit_cong:
  assumes "normalizePartnerId E pid1 = normalizePartnerId E pid2"
    and "normalizePartnerId E pid1 \<noteq> []"
  shows "normalizeVisit E pid1 k e p v r = normalizeVisit E pid2 k e p v r"
  by (simp add: normalizeVisit_def canonicalPartnerId_of_cong [OF assms])

lemma visitSubmission_cong:
  assumes "normalizePartnerId E pid1 = normalizePartnerId E pid2"
    and "normalizePartnerId E pid1 \<noteq> []"
  shows "visitSubmission E pid1 k = visitSubmission E pid2 k"
proof -
  have eq: "normalizeVisit E pid1 = normalizeVisit E pid2"
    by (intro ext) (rule normalizeVisit_cong [OF assms])
  show ?thesis unfolding visitSubmission_def eq by (rule refl)
qed

lemma summarize_fields:
  "submissions (summarize E pid1 subs) = submissions (summarize E pid2 subs)
   \<and> metrics (summarize E pid1 subs) = metrics (summarize E pid2 subs)
   \<and> partnerLabel (summarize E pid1 subs) = partnerLabel (summarize E pid2 subs)"
  by (simp add: summarize_def Let_def)

lemma loadPartnerData_visits:
  assumes "visitSubmissions E pid (visitRecordKeys_of E (visitSetKeys_of E pid)) \<noteq> []"
    and "normalizePartnerId E pid \<noteq> []"
  shows "loadPartnerData E pid
           = summarize E pid (visitSubmissions E pid (visitRecordKeys_of E (visitSetKeys_of E pid)))"
  using assms by (simp add: loadPartnerData_def Let_def)

subsection \<open>The two implementations without data, and in the fallback\<close>

lemma loadPartnerData_no_data:
  assumes "(normalizePartnerId E pid = [] \<and> \<not> truthy pid)
           \<or> list_all (no_members E) (visitSetKeys_of E pid @ emailSetKeys_of E pid)
           \<or> (\<forall>k. no_hash E k)"
  shows "loadPartnerData E pid = empty_result pid"
  using assms
proof (elim disjE)
  assume "normalizePartnerId E pid = [] \<and> \<not> truthy pid"
  then show ?thesis by (simp add: loadPartnerData_def)
next
  assume "list_all (no_members E) (visitSetKeys_of E pid @ emailSetKeys_of E pid)"
  then have "visitRecordKeys_of E (visitSetKeys_of E pid) = []"
    and "emails_of E (emailSetKeys_of E pid) = []"
    by (simp_all add: visitRecordKeys_of_no_members emails_of_no_members)
  then show ?thesis
    by (simp add: loadPartnerData_def Let_def visitSubmissions_def List.map_filter_simps)
next
  assume a: "\<forall>k. no_hash E k"
  have "visitSubmissions E pid ks = []" for ks
    unfolding visitSubmissions_def by (rule map_filter_None) (rule visitSubmission_no_hash [OF a])
  moreover have "emailSubmissions E pid ems = []" for ems
    unfolding emailSubmissions_def by (rule map_filter_None) (rule emailSubmission_no_hash [OF a])
  ultimately show ?thesis
    by (simp add: loadPartnerData_def Let_def summarize_Nil)
qed

lemma summarize_old_Nil: "summarize_old E pid [] = empty_result pid"
  by (simp add: summarize_old_def build_metrics_def empty_result_def EMPTY_METRICS_def
        total_revenue_def total_points_old_def count_used_def count_visited_def
        count_bonus_old_def)

lemma emailSubmission_old_None_iff:
  "emailSubmission_old E pid em = None \<longleftrightarrow> emailSubmission E pid em = None"
  by (simp add: emailSubmission_old_def emailSubmission_def split: fetch.splits option.splits)

lemma loadPartnerData_old_no_data:
  assumes "(normalizePartnerId E pid = [] \<and> \<not> truthy pid)
           \<or> list_all (no_members E) (visitSetKeys_of E pid @ emailSetKeys_of E pid)
           \<or> (\<forall>k. no_hash E k)"
  shows "loadPartnerData_old E pid = empty_result pid"
  using assms
proof (elim disjE)
  assume "normalizePartnerId E pid = [] \<and> \<not> truthy pid"
  then show ?thesis by (simp add: loadPartnerData_old_def)
next
  assume "list_all (no_members E) (visitSetKeys_of E pid @ emailSetKeys_of E pid)"
  then have "emails_of E (emailSetKeys_of E pid) = []"
    by (simp add: emails_of_no_members)
  then show ?thesis by (simp add: loadPartnerData_old_def Let_def)
next
  assume a: "\<forall>k. no_hash E k"
  have "List.map_filter (emailSubmission_old E pid) ems = []" for ems
    by (rule map_filter_None)
       (simp add: emailSubmission_old_None_iff emailSubmission_no_hash [OF a])
  then show ?thesis
    by (simp add: loadPartnerData_old_def Let_def summarize_old_Nil)
qed

lemma map_filter_Nil: "(\<And>x. x \<in> set xs \<Longrightarrow> f x = None) \<Longrightarrow> List.map_filter f xs = []"
  by (induction xs) (simp_all add: List.map_filter_simps)

lemma visitSubmission_no_hash_read:
  assumes "list_all (no_hash E) (hash_keys_of_member key)"
  shows "visitSubmission E pid key = None"
proof -
  define e where "e = (case visitKeyMatch key of Some (e, p, v) \<Rightarrow> e | None \<Rightarrow> [])"
  have k: "no_hash E key" using assms by (simp add: hash_keys_of_member_def)
  have l: "no_hash E (''qr:email:'' @ e)" if "e \<noteq> []"
    using assms that by (auto simp: hash_keys_of_member_def e_def split: option.splits)
  have r: "record_is_empty (loadVisitRecord E key e)"
  proof (cases "e = []")
    case True
    with k show ?thesis
      by (auto simp: loadVisitRecord_def loadRecordFromKey_def Let_def no_hash_def
            split: fetch.splits)
  next
    case False
    with k l [OF False] show ?thesis
      by (auto simp: loadVisitRecord_def loadRecordFromKey_def Let_def no_hash_def
            split: fetch.splits)
  qed
  have "(case loadVisitRecord E key e of
           None \<Rightarrow> None
         | Some record \<Rightarrow> if record = [] then None else Some (F record)) = None" for F
    using r by (cases "loadVisitRecord E key e") auto
  then show ?thesis
    by (simp add: visitSubmission_def Let_def e_def)
qed

lemma emailSubmission_no_hash_read:
  assumes "no_hash E (''qr:email:'' @ em)"
  shows "emailSubmission E pid em = None"
  using assms
  by (auto simp: emailSubmission_def no_hash_def prop_o_def split: fetch.splits option.splits)

lemma loadPartnerData_no_hash_read:
  assumes "list_all (no_hash E) (hashes_read E pid)"
  shows "loadPartnerData E pid = empty_result pid"
proof -
  have v: "visitSubmissions E pid (visitRecordKeys_of E (visitSetKeys_of E pid)) = []"
    unfolding visitSubmissions_def
  proof (rule map_filter_Nil)
    fix k
    assume "k \<in> set (visitRecordKeys_of E (visitSetKeys_of E pid))"
    with assms have "list_all (no_hash E) (hash_keys_of_member k)"
      by (auto simp: hashes_read_def list_all_iff)
    then show "visitSubmission E pid k = None" by (rule visitSubmission_no_hash_read)
  qed
  have e: "emailSubmissions E pid (emails_of E (emailSetKeys_of E pid)) = []"
    unfolding emailSubmissions_def
  proof (rule map_filter_Nil)
    fix em
    assume "em \<in> set (emails_of E (emailSetKeys_of E pid))"
    with assms have "no_hash E (''qr:email:'' @ em)"
      by (auto simp: hashes_read_def list_all_iff)
    then show "emailSubmission E pid em = None" by (rule emailSubmission_no_hash_read)
  qed
  show ?thesis
    by (simp add: loadPartnerData_def Let_def v e summarize_Nil)
qed

lemma normalizePartnerId_falsy: "\<not> truthy pid \<Longrightarrow> normalizePartnerId E pid = []"
  by (simp add: normalizePartnerId_def js_or_def trim_Nil toLowerCase_Nil_iff)

lemma length_map_filter: "length (List.map_filter f xs) = length (filter (\<lambda>x. f x \<noteq> None) xs)"
  by (induction xs) (auto simp: List.map_filter_simps split: option.splits)

lemma count_fallback:
  assumes "visitSubmissions E pid (visitRecordKeys_of E (visitSetKeys_of E pid)) = []"
  shows "length (submissions (loadPartnerData E pid)) = length (submissions (loadPartnerData_old E pid))"
proof -
  have "length (emailSubmissions E pid ems)
          = length (List.map_filter (emailSubmission_old E pid) ems)" for ems
    by (simp add: emailSubmissions_def length_map_filter emailSubmission_old_None_iff)
  then show ?thesis
    using assms
    by (simp add: loadPartnerData_def loadPartnerData_old_def Let_def summarize_def
          summarize_old_def length_array_sort empty_result_def)
qed

lemma count_m_length:
  "count_m (metrics (loadPartnerData E pid)) = length (submissions (loadPartnerData E pid))"
  using loadPartnerData_cases [of E pid]
  by (auto simp: empty_result_def EMPTY_METRICS_def summarize_def build_metrics_def Let_def)

lemma count_m_length_old:
  "count_m (metrics (loadPartnerData_old E pid)) = length (submissions (loadPartnerData_old E pid))"
  using loadPartnerData_old_cases [of E pid]
  by (auto simp: empty_result_def EMPTY_METRICS_def summarize_old_def build_metrics_def Let_def)

lemma partnerId_echo:
  "partnerId (loadPartnerData E pid) = pid \<and> partnerId (loadPartnerData_old E pid) = pid"
  using loadPartnerData_cases [of E pid] loadPartnerData_old_cases [of E pid]
  by (auto simp: empty_result_def summarize_def summarize_old_def Let_def)

section \<open>Merging the older hash under the current one (C1)\<close>

text \<open>
  Claim C1, as the code has it. Let \<open>k\<close> be a member key \<open>qr:<email>:<partnerId>:<visitId>\<close>
  whose own hash and whose older hash \<open>qr:email:<email>\<close> are both non-empty. The record
  the Visit is built from has, for every field, the value of the current hash where the
  current hash defines the field and the value of the older hash otherwise; the loop
  emits the Visit that \<open>normalizeVisit\<close> derives from this merged record; and when \<open>k\<close> is
  among the member keys of the partner, exactly one Visit of the returned ledger has the
  \<open>qrKey\<close> \<open>k\<close>. In the scenario (older hash with \<open>totalPrice\<close> 100, current hash with
  \<open>visited\<close> true) the one Visit has \<open>totalPrice\<close> 100 and \<open>visited\<close> true. The fields of
  the Visit are derived ones: they are not the merged record's fields themselves.
\<close>

theorem legacy_merged_under_current:
  assumes "visitKeyMatch k = Some (e, p, v)"
    and "hgetall E k = Fetched (Some cur)" and "cur \<noteq> []"
    and "hgetall E (''qr:email:'' @ e) = Fetched (Some leg)" and "leg \<noteq> []"
  shows "\<exists>m. loadVisitRecord E k e = Some m
           \<and> (\<forall>f. map_of m f = (case map_of cur f of Some x \<Rightarrow> Some x | None \<Rightarrow> map_of leg f))
           \<and> visitSubmission E pid k = Some (normalizeVisit E pid k e p (JStr v) m)
           \<and> (k \<in> set (visitRecordKeys_of E (visitSetKeys_of E pid)) \<longrightarrow>
                length (filter (hasQrKey k) (submissions (loadPartnerData E pid))) = 1)
           \<and> field_values ''totalPrice'' (submissions (loadPartnerData merge_env (JStr ''P1'')))
               = [JNum (Num 100)]
           \<and> field_values ''visited'' (submissions (loadPartnerData merge_env (JStr ''P1'')))
               = [JBool True]"
proof -
  let ?m = "obj_assign (obj_assign [] (AList.clearjunk leg)) (AList.clearjunk cur)"
  let ?keys = "visitRecordKeys_of E (visitSetKeys_of E pid)"
  have e: "e \<noteq> []" using assms(1) by (rule visitKeyMatch_email_nonempty)
  have rec: "loadVisitRecord E k e = Some ?m"
    using e assms(2-5) by (rule loadVisitRecord_both)
  have ne: "?m \<noteq> []" using assms(3) by (rule merged_nonempty)
  have sub: "visitSubmission E pid k = Some (normalizeVisit E pid k e p (JStr v) ?m)"
    using assms(1) rec ne by (simp add: visitSubmission_def Let_def)
  have one: "length (filter (hasQrKey k) (submissions (loadPartnerData E pid))) = 1"
    if mem: "k \<in> set ?keys"
  proof -
    have q: "hasQrKey k s = (k' = k)" if "visitSubmission E pid k' = Some s" for k' s
      using visitSubmission_qrKey [OF that] by (auto simp: hasQrKey_def)
    have "length (filter (hasQrKey k) (List.map_filter (visitSubmission E pid) ?keys))
            = (if k \<in> set ?keys \<and> visitSubmission E pid k \<noteq> None then 1 else 0)"
    proof (rule count_in_map_filter)
      show "distinct ?keys" by (rule distinct_visitRecordKeys)
    next
      fix k' s
      assume "visitSubmission E pid k' = Some s"
      then show "hasQrKey k s = (k' = k)" by (rule q)
    qed
    then have cnt: "length (filter (hasQrKey k) (visitSubmissions E pid ?keys)) = 1"
      using mem sub by (simp add: visitSubmissions_def)
    then have nonempty: "visitSubmissions E pid ?keys \<noteq> []" by auto
    have "visitSetKeys_of E pid \<noteq> []"
      using mem by (auto simp: visitRecordKeys_Nil)
    then have "\<not> (normalizePartnerId E pid = [] \<and> \<not> truthy pid)"
      using visitSetKeys_empty_id by blast
    then have "submissions (loadPartnerData E pid)
                 = array_sort (byCreatedAt E) (visitSubmissions E pid ?keys)"
      using nonempty by (auto simp: loadPartnerData_def Let_def summarize_def)
    then show ?thesis using cnt by (simp add: length_filter_array_sort)
  qed
  have scen: "field_values ''totalPrice'' (submissions (loadPartnerData merge_env (JStr ''P1'')))
               = [JNum (Num 100)]
           \<and> field_values ''visited'' (submissions (loadPartnerData merge_env (JStr ''P1'')))
               = [JBool True]"
    by code_simp
  show ?thesis
    using rec sub one scen by (intro exI [of _ ?m]) (simp add: map_of_merged)
qed

text \<open>
  The current hash defines \<open>totalPrice\<close> 200; the older hash has a payload with
  \<open>totalPrice\<close> 100. The merged record has both fields, the normalizer prefers the
  payload's price, and the Visit has \<open>totalPrice\<close> 100: not the value the current hash
  defines.
\<close>

theorem current_field_overridden_counterexample:
  "field_values ''totalPrice'' (submissions (loadPartnerData payload_env (JStr ''P1'')))
     = [JNum (Num 100)]
   \<and> hgetall payload_env ''qr:a@x.com:P1:v1''
     = Fetched (Some [(''totalPrice'', JNum (Num 200)), (''visited'', JBool True)])
   \<and> hgetall payload_env ''qr:email:a@x.com''
     = Fetched (Some [(''email'', JStr ''a@x.com''),
                      (''payload'', JObj [(''totalPrice'', JNum (Num 100))])])"
  by code_simp

text \<open>The scenario, through the theorem.\<close>

theorem legacy_merged_under_current_witness:
  "visitSubmission merge_env (JStr ''P1'') ''qr:a@x.com:P1:v1'' \<noteq> None
   \<and> length (filter (hasQrKey ''qr:a@x.com:P1:v1'')
               (submissions (loadPartnerData merge_env (JStr ''P1'')))) = 1
   \<and> field_values ''totalPrice'' (submissions (loadPartnerData merge_env (JStr ''P1'')))
       = [JNum (Num 100)]
   \<and> field_values ''visited'' (submissions (loadPartnerData merge_env (JStr ''P1'')))
       = [JBool True]"
proof -
  have a: "visitKeyMatch ''qr:a@x.com:P1:v1'' = Some (''a@x.com'', ''P1'', ''v1'')"
    by code_simp
  have b: "hgetall merge_env ''qr:a@x.com:P1:v1''
             = Fetched (Some [(''visited'', JBool True), (''visitedAt'', JStr ''2024-01-01'')])"
    and c: "[(''visited'', JBool True), (''visitedAt'', JStr ''2024-01-01'')] \<noteq> []"
    and d: "hgetall merge_env (''qr:email:'' @ ''a@x.com'')
             = Fetched (Some [(''totalPrice'', JNum (Num 100))])"
    and e: "[(''totalPrice'', JNum (Num 100))] \<noteq> []"
    by (simp_all add: merge_env_def)
  have f: "''qr:a@x.com:P1:v1''
             \<in> set (visitRecordKeys_of merge_env (visitSetKeys_of merge_env (JStr ''P1'')))"
    by code_simp
  from legacy_merged_under_current [OF a b c d e, of "JStr ''P1''"] f
  show ?thesis by auto
qed

section \<open>Effective points (C2)\<close>



section \<open>The nested data field (C3)\<close>

text \<open>
  Claim C3, as the code has it. When the decoded payload is a map whose \<open>data\<close> field is a
  non-empty string, \<open>parsePayload\<close> parses that string a second time. If the parse fails
  the outer map is returned unchanged. If it gives a map, the result has every key of
  both, and on a key present in both the nested value wins
  (\<open>{ ...payload, ...nested }\<close>). The double-encoded payload of the scenario decodes to
  a payload with \<open>ticket\<close> \<open>VIP\<close> and \<open>totalPrice\<close> 500.
\<close>

theorem parsePayload_nested_data_wins:
  assumes "truthy (prop_o record ''payload'')"
    and "(case prop_o record ''payload'' of JStr s \<Rightarrow> JSON_parse E s | p \<Rightarrow> Some p)
           = Some (JObj outer)"
    and "prop_o outer ''data'' = JStr ds" and "ds \<noteq> []"
  shows "(JSON_parse E ds = None \<longrightarrow> parsePayload E record = JObj outer)
       \<and> (JSON_parse E ds = Some (JObj nested) \<longrightarrow>
            js_prop (parsePayload E record) k
              = (case map_of nested k of Some v \<Rightarrow> v | None \<Rightarrow> prop_o outer k))
       \<and> (JSON_parse E scenario_payload = Some (JObj [(''data'', JStr scenario_data)])
            \<and> JSON_parse E scenario_data
                = Some (JObj [(''ticket'', JStr ''VIP''), (''totalPrice'', JNum (Num 500))])
          \<longrightarrow> js_prop (parsePayload E [(''payload'', JStr scenario_payload)]) ''ticket'' = JStr ''VIP''
            \<and> js_prop (parsePayload E [(''payload'', JStr scenario_payload)]) ''totalPrice''
                = JNum (Num 500))"
proof (intro conjI impI)
  assume "JSON_parse E ds = None"
  with assms show "parsePayload E record = JObj outer"
    by (cases "prop_o record ''payload''") (simp_all add: parsePayload_def Let_def)
next
  assume n: "JSON_parse E ds = Some (JObj nested)"
  with assms have "parsePayload E record
      = JObj (obj_assign (obj_assign [] (own_props (JObj outer))) (own_props (JObj nested)))"
    by (cases "prop_o record ''payload''") (simp_all add: parsePayload_def Let_def)
  then show "js_prop (parsePayload E record) k
              = (case map_of nested k of Some v \<Rightarrow> v | None \<Rightarrow> prop_o outer k)"
    by (simp add: prop_o_def map_of_obj_assign map_of_rev_clearjunk map_add_def split: option.splits)
next
  assume s: "JSON_parse E scenario_payload = Some (JObj [(''data'', JStr scenario_data)])
            \<and> JSON_parse E scenario_data
                = Some (JObj [(''ticket'', JStr ''VIP''), (''totalPrice'', JNum (Num 500))])"
  have ne: "scenario_payload \<noteq> []" "scenario_data \<noteq> []"
    by (simp_all add: scenario_payload_def scenario_data_def)
  have "parsePayload E [(''payload'', JStr scenario_payload)]
      = JObj (obj_assign (obj_assign [] (own_props (JObj [(''data'', JStr scenario_data)])))
                (own_props (JObj [(''ticket'', JStr ''VIP''), (''totalPrice'', JNum (Num 500))])))"
    using s ne by (simp add: parsePayload_def Let_def prop_o_def)
  then show "js_prop (parsePayload E [(''payload'', JStr scenario_payload)]) ''ticket'' = JStr ''VIP''"
    and "js_prop (parsePayload E [(''payload'', JStr scenario_payload)]) ''totalPrice'' = JNum (Num 500)"
    by (simp_all add: prop_o_obj_assign map_of_rev_clearjunk)
qed

text \<open>
  A payload map with \<open>ticket\<close> \<open>STD\<close> whose \<open>data\<close> string holds \<open>ticket\<close> \<open>VIP\<close>: the
  decoded payload has \<open>VIP\<close>, the nested value, not the outer one.
\<close>

theorem parsePayload_outer_wins_counterexample:
  "js_prop (parsePayload conflict_env conflict_record) ''ticket'' = JStr ''VIP''
   \<and> js_prop (prop_o conflict_record ''payload'') ''ticket'' = JStr ''STD''
   \<and> js_prop (prop_o conflict_record ''payload'') ''data'' = JStr conflict_text
   \<and> JSON_parse conflict_env conflict_text = Some (JObj [(''ticket'', JStr ''VIP'')])"
  by code_simp

text \<open>The scenario and the payload with the conflict, through the theorem.\<close>

theorem parsePayload_nested_data_wins_witness:
  "js_prop (parsePayload scenario_env [(''payload'', JStr scenario_payload)]) ''ticket'' = JStr ''VIP''
   \<and> js_prop (parsePayload scenario_env [(''payload'', JStr scenario_payload)]) ''totalPrice''
       = JNum (Num 500)
   \<and> js_prop (parsePayload conflict_env conflict_record) ''ticket'' = JStr ''VIP''"
proof -
  have a: "truthy (prop_o conflict_record ''payload'')"
    and b: "(case prop_o conflict_record ''payload'' of JStr s \<Rightarrow> JSON_parse conflict_env s
              | p \<Rightarrow> Some p)
            = Some (JObj [(''data'', JStr conflict_text), (''ticket'', JStr ''STD'')])"
    and c: "prop_o [(''data'', JStr conflict_text), (''ticket'', JStr ''STD'')] ''data''
              = JStr conflict_text"
    and d: "conflict_text \<noteq> []"
    by (simp_all add: conflict_record_def prop_o_def conflict_text_def)
  have e: "JSON_parse conflict_env conflict_text = Some (JObj [(''ticket'', JStr ''VIP'')])"
    by (simp add: conflict_env_def)
  have f: "JSON_parse scenario_env scenario_payload = Some (JObj [(''data'', JStr scenario_data)])
            \<and> JSON_parse scenario_env scenario_data
                = Some (JObj [(''ticket'', JStr ''VIP''), (''totalPrice'', JNum (Num 500))])"
    by (simp add: scenario_env_def scenario_payload_def scenario_data_def esc_quote_def)
  have a': "truthy (prop_o [(''payload'', JStr scenario_payload)] ''payload'')"
    and b': "(case prop_o [(''payload'', JStr scenario_payload)] ''payload'' of
                JStr s \<Rightarrow> JSON_parse scenario_env s | p \<Rightarrow> Some p)
            = Some (JObj [(''data'', JStr scenario_data)])"
    and c': "prop_o [(''data'', JStr scenario_data)] ''data'' = JStr scenario_data"
    and d': "scenario_data \<noteq> []"
    using f by (simp_all add: prop_o_def scenario_payload_def scenario_data_def)
  note t = parsePayload_nested_data_wins [OF a b c d, of "[(''ticket'', JStr ''VIP'')]" "''ticket''"]
  note u = parsePayload_nested_data_wins [OF a' b' c' d']
  from t e have "js_prop (parsePayload conflict_env conflict_record) ''ticket'' = JStr ''VIP''"
    by simp
  moreover from u f
  have "js_prop (parsePayload scenario_env [(''payload'', JStr scenario_payload)]) ''ticket''
          = JStr ''VIP''
        \<and> js_prop (parsePayload scenario_env [(''payload'', JStr scenario_payload)]) ''totalPrice''
          = JNum (Num 500)"
    by blast
  ultimately show ?thesis by simp
qed

section \<open>The order of the ledger (C4)\<close>

text \<open>
  Claim C4: the ledger is in descending order of \<open>createdAt\<close>, and a Visit whose
  \<open>createdAt\<close> is missing or does not parse sorts as if its time were 0, that is last.
  The comparator of \<open>loadPartnerData\<close> reads a missing \<open>createdAt\<close> as time 0 with
  \<open>|| 0\<close>, and has no such guard for a \<open>createdAt\<close> that does not parse: its time is
  \<open>NaN\<close>, the difference is \<open>NaN\<close>, and the sort reads that as "equal". With two Visits,
  the first with the \<open>createdAt\<close> \<open>garbage\<close> and the second dated 2024-01-01, both
  implementations of \<open>loadPartnerData\<close> keep the first one first, before the dated Visit.
  The sort of the dashboard, whose \<open>getTimestamp\<close> gives time 0 to both cases, puts it
  last, as the claim says.
\<close>

theorem unparseable_createdAt_kept_first:
  "field_values ''createdAt'' (submissions (loadPartnerData unparseable_env (JStr ''p1'')))
     = [JStr ''garbage'', JStr ''2024-01-01'']
   \<and> created_times unparseable_env (submissions (loadPartnerData unparseable_env (JStr ''p1'')))
     = [NaN, Num 1704067200000]
   \<and> field_values ''createdAt'' (submissions (loadPartnerData_old unparseable_env (JStr ''p1'')))
     = [JStr ''garbage'', JStr ''2024-01-01'']
   \<and> field_values ''createdAt''
       (sortPartnerSubmissions unparseable_env
          (submissions (loadPartnerData unparseable_env (JStr ''p1''))))
     = [JStr ''2024-01-01'', JStr ''garbage'']"
  by code_simp

section \<open>Key variants of an identifier (C5)\<close>

text \<open>
  Claim C5, as the code has it. Two string identifiers with the same trimmed form (they
  differ only by leading or trailing whitespace) resolve the same visit-set keys, in the
  same order: the keys \<open>partner:visits:\<close> followed by the trimmed identifier, by its
  lower-case form and by its upper-case form. When the visit sets yield at least one
  Visit for one of the identifiers, the two returned ledgers have the same submissions,
  metrics and partner label. Identifiers that differ in letter case share the lower-case
  and the upper-case key only, and their ledgers can differ.
\<close>

theorem same_trimmed_identifier_same_ledger:
  assumes "trim s1 = trim s2"
  shows "visitSetKeys_of E (JStr s1) = visitSetKeys_of E (JStr s2)
       \<and> visitSetKeys_of E (JStr s1) = variant_keys (trim s1)
       \<and> (visitSubmissions E (JStr s1) (visitRecordKeys_of E (visitSetKeys_of E (JStr s1))) \<noteq> []
            \<longrightarrow> submissions (loadPartnerData E (JStr s1)) = submissions (loadPartnerData E (JStr s2))
              \<and> metrics (loadPartnerData E (JStr s1)) = metrics (loadPartnerData E (JStr s2))
              \<and> partnerLabel (loadPartnerData E (JStr s1))
                  = partnerLabel (loadPartnerData E (JStr s2)))"
proof (intro conjI impI)
  show keys: "visitSetKeys_of E (JStr s1) = visitSetKeys_of E (JStr s2)"
    by (simp add: visitSetKeys_of_JStr assms)
  show "visitSetKeys_of E (JStr s1) = variant_keys (trim s1)"
    by (rule visitSetKeys_of_JStr)
  let ?ks = "visitRecordKeys_of E (visitSetKeys_of E (JStr s1))"
  assume ne: "visitSubmissions E (JStr s1) ?ks \<noteq> []"
  have nid: "normalizePartnerId E (JStr s1) = normalizePartnerId E (JStr s2)"
    by (simp add: normalizePartnerId_JStr assms)
  have "visitSetKeys_of E (JStr s1) \<noteq> []"
    using ne by (auto simp: visitSubmissions_def visitRecordKeys_Nil List.map_filter_simps)
  then have "trim s1 \<noteq> []"
    by (simp add: visitSetKeys_of_JStr variant_keys_Nil_iff)
  then have n1: "normalizePartnerId E (JStr s1) \<noteq> []"
    by (simp add: normalizePartnerId_JStr toLowerCase_Nil_iff)
  then have n2: "normalizePartnerId E (JStr s2) \<noteq> []" using nid by simp
  have "visitSubmission E (JStr s1) = visitSubmission E (JStr s2)"
    by (rule ext) (rule visitSubmission_cong [OF nid n1])
  then have subs: "visitSubmissions E (JStr s1) ?ks = visitSubmissions E (JStr s2) ?ks"
    by (simp add: visitSubmissions_def)
  have r1: "loadPartnerData E (JStr s1) = summarize E (JStr s1) (visitSubmissions E (JStr s1) ?ks)"
    using ne n1 by (rule loadPartnerData_visits)
  have r2: "loadPartnerData E (JStr s2) = summarize E (JStr s2) (visitSubmissions E (JStr s1) ?ks)"
    using loadPartnerData_visits [of E "JStr s2"] ne n2 subs keys by simp
  show "submissions (loadPartnerData E (JStr s1)) = submissions (loadPartnerData E (JStr s2))"
    and "metrics (loadPartnerData E (JStr s1)) = metrics (loadPartnerData E (JStr s2))"
    and "partnerLabel (loadPartnerData E (JStr s1)) = partnerLabel (loadPartnerData E (JStr s2))"
    unfolding r1 r2 using summarize_fields [of E "JStr s1" _ "JStr s2"] by simp_all
qed

text \<open>
  The visit set is stored under \<open>partner:visits:MiXed\<close>. The identifier \<open>MiXed\<close> probes
  that key and finds one Visit; the identifier \<open>mixed\<close>, which differs by letter case
  only, probes the lower-case and upper-case keys and finds none.
\<close>

theorem letter_case_counterexample:
  "visitSetKeys_of mixed_env (JStr ''MiXed'')
     = [''partner:visits:MiXed'', ''partner:visits:mixed'', ''partner:visits:MIXED'']
   \<and> visitSetKeys_of mixed_env (JStr ''mixed'')
     = [''partner:visits:mixed'', ''partner:visits:MIXED'']
   \<and> count_m (metrics (loadPartnerData mixed_env (JStr ''MiXed''))) = 1
   \<and> count_m (metrics (loadPartnerData mixed_env (JStr ''mixed''))) = 0"
  by code_simp

text \<open>The identifier \<open>MiXed\<close> with and without blanks around it.\<close>

theorem same_trimmed_identifier_same_ledger_witness:
  "visitSetKeys_of mixed_env (JStr '' MiXed '') = visitSetKeys_of mixed_env (JStr ''MiXed'')
   \<and> submissions (loadPartnerData mixed_env (JStr '' MiXed ''))
       = submissions (loadPartnerData mixed_env (JStr ''MiXed''))
   \<and> metrics (loadPartnerData mixed_env (JStr '' MiXed ''))
       = metrics (loadPartnerData mixed_env (JStr ''MiXed''))
   \<and> count_m (metrics (loadPartnerData mixed_env (JStr '' MiXed ''))) = 1"
proof -
  have a: "trim '' MiXed '' = trim ''MiXed''"
    by code_simp
  have b: "visitSubmissions mixed_env (JStr '' MiXed '')
             (visitRecordKeys_of mixed_env (visitSetKeys_of mixed_env (JStr '' MiXed ''))) \<noteq> []"
    by code_simp
  have c: "count_m (metrics (loadPartnerData mixed_env (JStr ''MiXed''))) = 1"
    by code_simp
  from same_trimmed_identifier_same_ledger [OF a, of mixed_env] b c
  show ?thesis by simp
qed

section \<open>Bonus redemptions (C6)\<close>




section \<open>Averages (C7)\<close>




section \<open>No data (C8)\<close>

text \<open>
  Claim C8, as the code has it. \<open>loadPartnerData\<close> returns the empty ledger, the all-zero
  Metrics and the label \<open>null\<close> when the identifier is falsy (\<open>undefined\<close>, \<open>null\<close>, the
  empty string, \<open>0\<close>, \<open>NaN\<close>, \<open>false\<close>), when no candidate set key of either scheme has a
  member, and when no key that the call reads holds a hash. The model is a total function
  whose every failing read is a branch, so nothing is raised. An identifier that is
  truthy while its normal form is empty, such as a string of spaces, is not an empty
  identifier for the code: the early return asks for both, and the email set under
  \<open>partner:<identifier>\<close> is read.
\<close>

theorem falsy_or_dataless_identifier_gives_empty_result:
  assumes "\<not> truthy pid
           \<or> list_all (no_members E) (visitSetKeys_of E pid @ emailSetKeys_of E pid)
           \<or> list_all (no_hash E) (hashes_read E pid)"
  shows "loadPartnerData E pid = empty_result pid"
  using assms
proof (elim disjE)
  assume "\<not> truthy pid"
  then have "normalizePartnerId E pid = [] \<and> \<not> truthy pid"
    by (simp add: normalizePartnerId_falsy)
  then show ?thesis by (simp add: loadPartnerData_no_data)
next
  assume "list_all (no_members E) (visitSetKeys_of E pid @ emailSetKeys_of E pid)"
  then show ?thesis by (simp add: loadPartnerData_no_data)
next
  assume "list_all (no_hash E) (hashes_read E pid)"
  then show ?thesis by (rule loadPartnerData_no_hash_read)
qed

text \<open>
  The identifier of one space has the empty normal form. No visit-set key is made for it,
  the email set \<open>partner:\<close> followed by the space is read, and its member becomes a Visit.
\<close>

theorem whitespace_identifier_counterexample:
  "normalizePartnerId blank_env (JStr '' '') = []
   \<and> visitSetKeys_of blank_env (JStr '' '') = []
   \<and> emailSetKeys_of blank_env (JStr '' '') = [''partner: '']
   \<and> field_values ''email'' (submissions (loadPartnerData blank_env (JStr '' '')))
       = [JStr ''a@x.com'']
   \<and> count_m (metrics (loadPartnerData blank_env (JStr '' ''))) = 1
   \<and> revenue (metrics (loadPartnerData blank_env (JStr '' ''))) = Num 100"
  by code_simp

text \<open>
  The identifiers \<open>undefined\<close> and the empty string; an identifier no set key of the store
  mentions; and a store whose sets have members for the identifier while the three hashes
  the call reads are a failed read, an empty hash and a missing hash.
\<close>

theorem falsy_or_dataless_identifier_gives_empty_result_witness:
  "loadPartnerData ledger_env Undefined = empty_result Undefined
   \<and> loadPartnerData ledger_env (JStr []) = empty_result (JStr [])
   \<and> loadPartnerData ledger_env (JStr ''nobody'') = empty_result (JStr ''nobody'')
   \<and> hashes_read nohash_env (JStr ''p1'')
       = [''qr:a@x.com:p1:v1'', ''qr:email:a@x.com'', ''qr:email:b@x.com'']
   \<and> loadPartnerData nohash_env (JStr ''p1'') = empty_result (JStr ''p1'')"
proof -
  have b: "list_all (no_members ledger_env)
             (visitSetKeys_of ledger_env (JStr ''nobody'') @ emailSetKeys_of ledger_env (JStr ''nobody''))"
    by code_simp
  have h: "hashes_read nohash_env (JStr ''p1'')
             = [''qr:a@x.com:p1:v1'', ''qr:email:a@x.com'', ''qr:email:b@x.com'']"
    by code_simp
  have c: "list_all (no_hash nohash_env) (hashes_read nohash_env (JStr ''p1''))"
    by code_simp
  show ?thesis
    using falsy_or_dataless_identifier_gives_empty_result [of Undefined ledger_env]
      falsy_or_dataless_identifier_gives_empty_result [of "JStr []" ledger_env]
      falsy_or_dataless_identifier_gives_empty_result [of "JStr ''nobody''" ledger_env]
      falsy_or_dataless_identifier_gives_empty_result [of "JStr ''p1''" nohash_env] b c h
    by simp
qed

section \<open>The two implementations (C9)\<close>

text \<open>
  Claim C9, as the code has it. The two implementations return the identifier they were
  given. When the visit sets yield no Visit, both read the same e-mail sets and keep the
  same hashes, so their ledgers have the same number of Visits and the same
  \<open>metrics.count\<close>. When the identifier is empty, no candidate set key has a member, or
  no key holds a hash, both return the same empty result. Beyond that they differ: the
  older copy does not read the visit sets, takes \<open>used\<close> and \<open>visited\<close> from the literal
  \<open>true\<close> only, ignores \<open>pointsAwarded\<close>, lets the payload override the derived fields
  and matches \<open>BonusReward\<close> by case.
\<close>

theorem old_copy_agrees_where_no_visit_sets:
  "partnerId (loadPartnerData E pid) = partnerId (loadPartnerData_old E pid)
   \<and> (visitSubmissions E pid (visitRecordKeys_of E (visitSetKeys_of E pid)) = []
        \<longrightarrow> count_m (metrics (loadPartnerData E pid)) = count_m (metrics (loadPartnerData_old E pid))
          \<and> length (submissions (loadPartnerData E pid))
              = length (submissions (loadPartnerData_old E pid)))
   \<and> ((normalizePartnerId E pid = [] \<and> \<not> truthy pid)
        \<or> list_all (no_members E) (visitSetKeys_of E pid @ emailSetKeys_of E pid)
        \<or> (\<forall>k. no_hash E k)
        \<longrightarrow> loadPartnerData E pid = loadPartnerData_old E pid)"
proof (intro conjI impI)
  show "partnerId (loadPartnerData E pid) = partnerId (loadPartnerData_old E pid)"
    by (simp add: partnerId_echo)
next
  assume a: "visitSubmissions E pid (visitRecordKeys_of E (visitSetKeys_of E pid)) = []"
  show "length (submissions (loadPartnerData E pid))
          = length (submissions (loadPartnerData_old E pid))"
    using a by (rule count_fallback)
  then show "count_m (metrics (loadPartnerData E pid))
               = count_m (metrics (loadPartnerData_old E pid))"
    by (simp add: count_m_length count_m_length_old)
next
  assume "(normalizePartnerId E pid = [] \<and> \<not> truthy pid)
          \<or> list_all (no_members E) (visitSetKeys_of E pid @ emailSetKeys_of E pid)
          \<or> (\<forall>k. no_hash E k)"
  then show "loadPartnerData E pid = loadPartnerData_old E pid"
    by (simp add: loadPartnerData_no_data loadPartnerData_old_no_data)
qed

text \<open>
  In the merge scenario \<open>partner-data.js\<close> finds the Visit of the visit set and the older
  copy finds nothing; on the store with the lower-case bonus ticket both find the Visit
  and disagree on \<open>bonusRedemptions\<close>.
\<close>

theorem old_copy_differs_counterexample:
  "count_m (metrics (loadPartnerData merge_env (JStr ''P1''))) = 1
   \<and> count_m (metrics (loadPartnerData_old merge_env (JStr ''P1''))) = 0
   \<and> bonusRedemptions (metrics (loadPartnerData bonus_env (JStr ''p1''))) = 1
   \<and> bonusRedemptions (metrics (loadPartnerData_old bonus_env (JStr ''p1''))) = 0"
  by code_simp

text \<open>A partner with an e-mail set only, and the identifier \<open>null\<close>.\<close>

theorem old_copy_agrees_where_no_visit_sets_witness:
  "count_m (metrics (loadPartnerData bonus_env (JStr ''p1''))) = 1
   \<and> count_m (metrics (loadPartnerData_old bonus_env (JStr ''p1''))) = 1
   \<and> loadPartnerData bonus_env Null = loadPartnerData_old bonus_env Null"
proof -
  have a: "visitSubmissions bonus_env (JStr ''p1'')
             (visitRecordKeys_of bonus_env (visitSetKeys_of bonus_env (JStr ''p1''))) = []"
    by code_simp
  have b: "count_m (metrics (loadPartnerData_old bonus_env (JStr ''p1''))) = 1"
    by code_simp
  have c: "normalizePartnerId bonus_env Null = [] \<and> \<not> truthy Null"
    by code_simp
  from old_copy_agrees_where_no_visit_sets [of bonus_env "JStr ''p1''"]
    old_copy_agrees_where_no_visit_sets [of bonus_env Null] a b c
  show ?thesis by simp
qed

section \<open>The emitted estimatedPoints (C10)\<close>

text \<open>
  Claim C10. Every Visit of a returned ledger was built from a stored record, by the
  first loop (\<open>normalizeVisit\<close>) or by the fallback loop (\<open>emailVisit\<close>). With \<open>pa\<close> the
  points awarded and \<open>est\<close> the registration-time estimate read from that record, the
  Visit's \<open>pointsAwarded\<close> is \<open>pa\<close>, and its \<open>estimatedPoints\<close> is \<open>pa\<close> when \<open>pa\<close> is nonzero
  and \<open>est\<close> otherwise.
\<close>

theorem estimatedPoints_holds_pointsAwarded:
  assumes "s \<in> set (submissions (loadPartnerData E pid))"
  shows "\<exists>pa est.
           ((\<exists>k e p v r. s = normalizeVisit E pid k e p v r
                \<and> pa = pointsAwarded_of E r (parsePayload E r)
                \<and> est = estimatedPointsValue_of E r (parsePayload E r))
            \<or> (\<exists>r. s = emailVisit E pid r
                \<and> pa = emailPointsAwarded_of E r (parsePayload E r)
                \<and> est = emailEstimatedPoints_of E r (parsePayload E r)))
           \<and> pa \<noteq> NaN
           \<and> prop_o s ''pointsAwarded'' = JNum pa
           \<and> prop_o s ''estimatedPoints'' = JNum (if pa \<noteq> Num 0 then pa else est)"
  using submissions_origin [OF assms]
proof
  assume "\<exists>k e p v r. s = normalizeVisit E pid k e p v r"
  then obtain k e p v r where s: "s = normalizeVisit E pid k e p v r" by blast
  let ?pa = "pointsAwarded_of E r (parsePayload E r)"
  let ?est = "estimatedPointsValue_of E r (parsePayload E r)"
  have nn: "?pa \<noteq> NaN" by (simp add: pointsAwarded_of_def num_or0_not_NaN)
  have tr: "num_truthy ?pa = (?pa \<noteq> Num 0)"
    by (simp add: pointsAwarded_of_def num_truthy_num_or0)
  have org: "\<exists>k e p v r'. s = normalizeVisit E pid k e p v r'
                \<and> ?pa = pointsAwarded_of E r' (parsePayload E r')
                \<and> ?est = estimatedPointsValue_of E r' (parsePayload E r')"
    using s by blast
  have pa: "prop_o s ''pointsAwarded'' = JNum ?pa"
    by (simp add: s normalizeVisit_pointsAwarded)
  have ep: "prop_o s ''estimatedPoints'' = JNum (if ?pa \<noteq> Num 0 then ?pa else ?est)"
    by (simp add: s normalizeVisit_estimatedPoints points_or_def tr)
  from org nn pa ep show ?thesis by blast
next
  assume "\<exists>r. s = emailVisit E pid r"
  then obtain r where s: "s = emailVisit E pid r" by blast
  let ?pa = "emailPointsAwarded_of E r (parsePayload E r)"
  let ?est = "emailEstimatedPoints_of E r (parsePayload E r)"
  have nn: "?pa \<noteq> NaN" by (simp add: emailPointsAwarded_of_def num_or0_not_NaN)
  have tr: "num_truthy ?pa = (?pa \<noteq> Num 0)"
    by (simp add: emailPointsAwarded_of_def num_truthy_num_or0)
  have org: "\<exists>r'. s = emailVisit E pid r'
                \<and> ?pa = emailPointsAwarded_of E r' (parsePayload E r')
                \<and> ?est = emailEstimatedPoints_of E r' (parsePayload E r')"
    using s by blast
  have pa: "prop_o s ''pointsAwarded'' = JNum ?pa"
    by (simp add: s emailVisit_pointsAwarded)
  have ep: "prop_o s ''estimatedPoints'' = JNum (if ?pa \<noteq> Num 0 then ?pa else ?est)"
    by (simp add: s emailVisit_estimatedPoints points_or_def tr)
  from org nn pa ep show ?thesis by blast
qed

text \<open>The first Visit of the two-Visit ledger: 25 awarded, so 25 is what it shows as estimate.\<close>

theorem estimatedPoints_holds_pointsAwarded_witness:
  "hd (submissions (loadPartnerData awarded_env (JStr ''p1'')))
     \<in> set (submissions (loadPartnerData awarded_env (JStr ''p1'')))
   \<and> prop_o (hd (submissions (loadPartnerData awarded_env (JStr ''p1'')))) ''pointsAwarded''
       = JNum (Num 25)
   \<and> prop_o (hd (submissions (loadPartnerData awarded_env (JStr ''p1'')))) ''estimatedPoints''
       = JNum (Num 25)"
proof -
  let ?subs = "submissions (loadPartnerData awarded_env (JStr ''p1''))"
  have pa: "prop_o (hd ?subs) ''pointsAwarded'' = JNum (Num 25)" and ne: "?subs \<noteq> []"
    using awarded_fields by (auto simp: field_values_def)
  have mem: "hd ?subs \<in> set ?subs" using ne by simp
  from estimatedPoints_holds_pointsAwarded [OF mem] pa
  have "prop_o (hd ?subs) ''estimatedPoints'' = JNum (Num 25)" by auto
  with mem pa show ?thesis by simp
qed

end
